theory Spec2Isabelle
  imports Main "HOL-Library.Word"
begin

section \<open>The ledger: contracts/DeviceMaintenance.sol\<close>

text \<open>
  The contract is embedded with explicit state passing. Solidity value types are machine
  words (\<open>address\<close> is 160 bits, \<open>uint256\<close> is 256 bits), \<open>bytes\<close> is a list of
  octets, a \<open>mapping\<close> is a total function whose default is the zero value of its range,
  and a \<open>require\<close> that fails is the \<open>Inl\<close> branch of the result, carrying the revert
  message. \<open>msg.sender\<close> and \<open>block.timestamp\<close> are explicit arguments.
\<close>

type_synonym address = "160 word"
type_synonym uint256 = "256 word"
type_synonym bytes = "8 word list"

datatype DeviceStatus = Operational | Maintenance | Critical

record Device =
  name :: string
  deviceType :: string
  status :: DeviceStatus
  lastMaintenance :: uint256
  nextCalibration :: uint256
  encryptedNotes :: bytes
  encryptedCalibration :: bytes
  exists :: bool

record contract =
  devices :: "string \<Rightarrow> Device"
  authorizedTechnicians :: "address \<Rightarrow> bool"
  owner :: address

datatype event =
    DeviceRegistered string string address
  | MaintenanceUpdated string address uint256
  | TechnicianAuthorized address address
  | TechnicianRevoked address address

text \<open>One constructor per revert message of the source.\<close>

datatype revert =
    Only_owner_can_perform_this_action
  | Not_authorized_technician
  | Device_already_exists
  | Encrypted_notes_cannot_be_empty
  | Encrypted_calibration_cannot_be_empty
  | Device_does_not_exist
  | Invalid_address
  | Technician_already_authorized
  | Technician_not_authorized

text \<open>The value every key of \<open>devices\<close> holds before it is written.\<close>

definition zero_device :: Device where
  "zero_device = \<lparr> name = [], deviceType = [], status = Operational,
     lastMaintenance = 0, nextCalibration = 0,
     encryptedNotes = [], encryptedCalibration = [], exists = False \<rparr>"

text \<open>\<^verbatim>\<open>constructor() { owner = msg.sender; authorizedTechnicians[msg.sender] = true; }\<close>\<close>

definition constructor :: "address \<Rightarrow> contract" where
  "constructor sender =
     \<lparr> devices = (\<lambda>_. zero_device),
       authorizedTechnicians = (\<lambda>_. False)(sender := True),
       owner = sender \<rparr>"

text \<open>The guards of the two modifiers.\<close>

definition onlyOwner :: "contract \<Rightarrow> address \<Rightarrow> bool" where
  "onlyOwner s sender = (sender = owner s)"

definition onlyAuthorized :: "contract \<Rightarrow> address \<Rightarrow> bool" where
  "onlyAuthorized s sender = (authorizedTechnicians s sender \<or> sender = owner s)"

definition registerDevice ::
  "contract \<Rightarrow> address \<Rightarrow> string \<Rightarrow> string \<Rightarrow> string \<Rightarrow> DeviceStatus \<Rightarrow> uint256 \<Rightarrow> uint256
     \<Rightarrow> bytes \<Rightarrow> bytes \<Rightarrow> revert + contract \<times> event list" where
  "registerDevice s sender deviceId nm dt st lm nc notes calib =
     (if \<not> onlyAuthorized s sender then Inl Not_authorized_technician
      else if exists (devices s deviceId) then Inl Device_already_exists
      else if \<not> 0 < length notes then Inl Encrypted_notes_cannot_be_empty
      else if \<not> 0 < length calib then Inl Encrypted_calibration_cannot_be_empty
      else Inr (s\<lparr> devices := (devices s)(deviceId :=
                    \<lparr> name = nm, deviceType = dt, status = st,
                      lastMaintenance = lm, nextCalibration = nc,
                      encryptedNotes = notes, encryptedCalibration = calib,
                      exists = True \<rparr>) \<rparr>,
                [DeviceRegistered deviceId nm sender]))"

definition updateMaintenance ::
  "contract \<Rightarrow> address \<Rightarrow> uint256 \<Rightarrow> string \<Rightarrow> DeviceStatus \<Rightarrow> uint256 \<Rightarrow> uint256
     \<Rightarrow> bytes \<Rightarrow> bytes \<Rightarrow> revert + contract \<times> event list" where
  "updateMaintenance s sender timestamp deviceId st lm nc notes calib =
     (if \<not> onlyAuthorized s sender then Inl Not_authorized_technician
      else if \<not> exists (devices s deviceId) then Inl Device_does_not_exist
      else if \<not> 0 < length notes then Inl Encrypted_notes_cannot_be_empty
      else if \<not> 0 < length calib then Inl Encrypted_calibration_cannot_be_empty
      else Inr (s\<lparr> devices := (devices s)(deviceId :=
                    (devices s deviceId)\<lparr> status := st,
                      lastMaintenance := lm, nextCalibration := nc,
                      encryptedNotes := notes, encryptedCalibration := calib \<rparr>) \<rparr>,
                [MaintenanceUpdated deviceId sender timestamp]))"

definition getDeviceInfo ::
  "contract \<Rightarrow> string \<Rightarrow> revert + string \<times> string \<times> DeviceStatus \<times> uint256 \<times> uint256" where
  "getDeviceInfo s deviceId =
     (if \<not> exists (devices s deviceId) then Inl Device_does_not_exist
      else let device = devices s deviceId
           in Inr (name device, deviceType device, status device,
                   lastMaintenance device, nextCalibration device))"

definition getEncryptedRecords :: "contract \<Rightarrow> address \<Rightarrow> string \<Rightarrow> revert + bytes \<times> bytes" where
  "getEncryptedRecords s sender deviceId =
     (if \<not> onlyAuthorized s sender then Inl Not_authorized_technician
      else if \<not> exists (devices s deviceId) then Inl Device_does_not_exist
      else let device = devices s deviceId
           in Inr (encryptedNotes device, encryptedCalibration device))"

definition authorizeTechnician ::
  "contract \<Rightarrow> address \<Rightarrow> address \<Rightarrow> revert + contract \<times> event list" where
  "authorizeTechnician s sender technician =
     (if \<not> onlyOwner s sender then Inl Only_owner_can_perform_this_action
      else if \<not> technician \<noteq> 0 then Inl Invalid_address
      else if authorizedTechnicians s technician then Inl Technician_already_authorized
      else Inr (s\<lparr> authorizedTechnicians := (authorizedTechnicians s)(technician := True) \<rparr>,
                [TechnicianAuthorized technician sender]))"

definition revokeTechnician ::
  "contract \<Rightarrow> address \<Rightarrow> address \<Rightarrow> revert + contract \<times> event list" where
  "revokeTechnician s sender technician =
     (if \<not> onlyOwner s sender then Inl Only_owner_can_perform_this_action
      else if \<not> authorizedTechnicians s technician then Inl Technician_not_authorized
      else Inr (s\<lparr> authorizedTechnicians := (authorizedTechnicians s)(technician := False) \<rparr>,
                [TechnicianRevoked technician sender]))"

definition isAuthorized :: "contract \<Rightarrow> address \<Rightarrow> bool" where
  "isAuthorized s technician = (authorizedTechnicians s technician \<or> technician = owner s)"

text \<open>
  The three state variables are declared \<^verbatim>\<open>public\<close>, so the compiler adds an external
  view function for each. The getter of \<^verbatim>\<open>mapping(string => Device) public devices\<close>
  takes the key and returns the members of the struct in declaration order; members of
  type \<^verbatim>\<open>string\<close> and \<^verbatim>\<open>bytes\<close> are returned, only mappings and other arrays would be
  left out. It carries no modifier.
\<close>

definition devices_getter :: "contract \<Rightarrow> string \<Rightarrow> Device" where
  "devices_getter s deviceId = devices s deviceId"

definition authorizedTechnicians_getter :: "contract \<Rightarrow> address \<Rightarrow> bool" where
  "authorizedTechnicians_getter s a = authorizedTechnicians s a"

definition owner_getter :: "contract \<Rightarrow> address" where
  "owner_getter s = owner s"

subsection \<open>Transactions and calls\<close>

text \<open>
  The external interface of the deployed contract: one constructor per external function,
  the generated getters included. \<open>transact\<close> runs one call for a sender at a block
  timestamp; a revert leaves the state as it was and emits nothing.
\<close>

datatype call =
    RegisterDevice string string string DeviceStatus uint256 uint256 bytes bytes
  | UpdateMaintenance string DeviceStatus uint256 uint256 bytes bytes
  | GetDeviceInfo string
  | GetEncryptedRecords string
  | AuthorizeTechnician address
  | RevokeTechnician address
  | IsAuthorized address
  | Devices string
  | AuthorizedTechnicians address
  | Owner

datatype retval =
    Unit
  | DeviceInfo string string DeviceStatus uint256 uint256
  | EncryptedRecords bytes bytes
  | Bool bool
  | DeviceStruct Device
  | Address address

datatype outcome = Reverted revert | Returned retval "event list"

definition mutating :: "contract \<Rightarrow> revert + contract \<times> event list \<Rightarrow> contract \<times> outcome" where
  "mutating s r = (case r of Inl e \<Rightarrow> (s, Reverted e) | Inr (s', evs) \<Rightarrow> (s', Returned Unit evs))"

fun transact :: "contract \<Rightarrow> address \<Rightarrow> uint256 \<Rightarrow> call \<Rightarrow> contract \<times> outcome" where
  "transact s sender ts (RegisterDevice deviceId nm dt st lm nc notes calib) =
     mutating s (registerDevice s sender deviceId nm dt st lm nc notes calib)"
| "transact s sender ts (UpdateMaintenance deviceId st lm nc notes calib) =
     mutating s (updateMaintenance s sender ts deviceId st lm nc notes calib)"
| "transact s sender ts (GetDeviceInfo deviceId) =
     (case getDeviceInfo s deviceId of
        Inl e \<Rightarrow> (s, Reverted e)
      | Inr (nm, dt, st, lm, nc) \<Rightarrow> (s, Returned (DeviceInfo nm dt st lm nc) []))"
| "transact s sender ts (GetEncryptedRecords deviceId) =
     (case getEncryptedRecords s sender deviceId of
        Inl e \<Rightarrow> (s, Reverted e)
      | Inr (notes, calib) \<Rightarrow> (s, Returned (EncryptedRecords notes calib) []))"
| "transact s sender ts (AuthorizeTechnician technician) =
     mutating s (authorizeTechnician s sender technician)"
| "transact s sender ts (RevokeTechnician technician) =
     mutating s (revokeTechnician s sender technician)"
| "transact s sender ts (IsAuthorized technician) =
     (s, Returned (Bool (isAuthorized s technician)) [])"
| "transact s sender ts (Devices deviceId) =
     (s, Returned (DeviceStruct (devices_getter s deviceId)) [])"
| "transact s sender ts (AuthorizedTechnicians a) =
     (s, Returned (Bool (authorizedTechnicians_getter s a)) [])"
| "transact s sender ts Owner = (s, Returned (Address (owner_getter s)) [])"


text \<open>A deployment used for concrete evaluation: account 1 deploys and registers a device.\<close>

definition example_ledger :: contract where
  "example_ledger =
     fst (transact (constructor 1) 1 100
       (RegisterDevice ''dev-001'' ''MRI-X200'' ''Imaging'' Operational 100 200 [1, 2, 3] [4, 5]))"

text \<open>A second deployment, differing from the first in the registered name and type only.\<close>

definition other_ledger :: contract where
  "other_ledger =
     fst (transact (constructor 1) 1 100
       (RegisterDevice ''dev-001'' ''CT-900'' ''Tomography'' Operational 100 200 [1, 2, 3] [4, 5]))"


text \<open>
  A ledger with every ciphertext field blanked: two ledgers with the same \<open>redact\<close> differ
  in stored ciphertext only.
\<close>

definition redact :: "contract \<Rightarrow> contract" where
  "redact s = s\<lparr> devices := (\<lambda>deviceId. (devices s deviceId)\<lparr> encryptedNotes := [], encryptedCalibration := [] \<rparr>) \<rparr>"

section \<open>The cipher: ui/src/utils/crypto.ts\<close>

text \<open>
  A JavaScript string is a sequence of UTF-16 code units; \<open>js\<close> writes one from a
  literal. A \<^verbatim>\<open>Uint8Array\<close> is a list of octets.
\<close>

type_synonym jsstring = "nat list"

definition js :: "string \<Rightarrow> jsstring" where
  "js s = map of_char s"

subsection \<open>Hexadecimal\<close>

text \<open>
  \<^verbatim>\<open>parseInt(s, 16)\<close>: leading white space is dropped, then an optional sign, then an
  optional \<^verbatim>\<open>0x\<close> or \<^verbatim>\<open>0X\<close>; the longest run of hexadecimal digits that follows is the
  value, and \<^verbatim>\<open>NaN\<close> (\<open>None\<close>) is the result when that run is empty.
\<close>

definition isWhiteSpace :: "nat \<Rightarrow> bool" where
  "isWhiteSpace u = (u \<in> {9, 10, 11, 12, 13, 32, 160, 5760, 8232, 8233, 8239, 8287, 12288, 65279}
                      \<or> (8192 \<le> u \<and> u \<le> 8202))"

definition hexValue :: "nat \<Rightarrow> nat option" where
  "hexValue u = (if 48 \<le> u \<and> u \<le> 57 then Some (u - 48)
                 else if 97 \<le> u \<and> u \<le> 102 then Some (u - 87)
                 else if 65 \<le> u \<and> u \<le> 70 then Some (u - 55)
                 else None)"

definition isHexDigit :: "nat \<Rightarrow> bool" where
  "isHexDigit u = (hexValue u \<noteq> None)"

definition hexNumber :: "jsstring \<Rightarrow> nat" where
  "hexNumber ds = foldl (\<lambda>acc u. 16 * acc + (case hexValue u of Some d \<Rightarrow> d | None \<Rightarrow> 0)) 0 ds"

definition parseInt16 :: "jsstring \<Rightarrow> int option" where
  "parseInt16 s =
     (let s1 = dropWhile isWhiteSpace s;
          sign = (if take 1 s1 = js ''-'' then - 1 else 1);
          s2 = (if take 1 s1 = js ''-'' \<or> take 1 s1 = js ''+'' then drop 1 s1 else s1);
          s3 = (if take 2 s2 = js ''0x'' \<or> take 2 s2 = js ''0X'' then drop 2 s2 else s2);
          ds = takeWhile isHexDigit s3
      in if ds = [] then None else Some (sign * int (hexNumber ds)))"

text \<open>Storing a number into a \<^verbatim>\<open>Uint8Array\<close>: \<^verbatim>\<open>NaN\<close> becomes 0, an integer is taken modulo 256.\<close>

definition toUint8 :: "int option \<Rightarrow> 8 word" where
  "toUint8 v = (case v of None \<Rightarrow> 0 | Some i \<Rightarrow> word_of_int i)"

text \<open>
  The loop of \<^verbatim>\<open>hexToBytes\<close>: \<^verbatim>\<open>bytes.length\<close> is \<^verbatim>\<open>n.length / 2\<close> rounded down, and
  \<^verbatim>\<open>bytes[i] = parseInt(n.substr(i * 2, 2), 16)\<close>, so the string is read two code units
  at a time and an odd last unit is not read. Nothing is validated.
\<close>

fun hexPairs :: "jsstring \<Rightarrow> bytes" where
  "hexPairs (a # b # rest) = toUint8 (parseInt16 [a, b]) # hexPairs rest"
| "hexPairs _ = []"

definition hexToBytes :: "jsstring \<Rightarrow> bytes" where
  "hexToBytes hex = (let n = (if take 2 hex = js ''0x'' then drop 2 hex else hex) in hexPairs n)"

text \<open>\<^verbatim>\<open>b.toString(16).padStart(2, '0')\<close> for an octet \<open>b\<close>.\<close>

definition hexDigit :: "nat \<Rightarrow> nat" where
  "hexDigit d = (if d < 10 then 48 + d else 87 + d)"

definition toString16 :: "nat \<Rightarrow> jsstring" where
  "toString16 b = (if b < 16 then [hexDigit b] else [hexDigit (b div 16), hexDigit (b mod 16)])"

definition padStart2 :: "jsstring \<Rightarrow> jsstring" where
  "padStart2 s = replicate (2 - length s) 48 @ s"

definition bytesToHex :: "bytes \<Rightarrow> jsstring" where
  "bytesToHex bs = concat (map (\<lambda>b. padStart2 (toString16 (unat b))) bs)"

subsection \<open>Text encoding\<close>

text \<open>
  \<^verbatim>\<open>new TextEncoder().encode(str)\<close> and \<^verbatim>\<open>new TextDecoder().decode(buffer)\<close>, as the
  Encoding Standard defines them. The encoder first turns the code units into scalar
  values (a surrogate pair is one value, a lone surrogate becomes U+FFFD) and writes each
  in UTF-8. The decoder is the standard's UTF-8 decoder in replacement mode, a state
  machine over the octets; constructed with no options it has \<^verbatim>\<open>ignoreBOM\<close> false, so
  a U+FEFF that comes first in its output is left out.
\<close>

definition isLead :: "nat \<Rightarrow> bool" where
  "isLead u = (55296 \<le> u \<and> u \<le> 56319)"

definition isTrail :: "nat \<Rightarrow> bool" where
  "isTrail u = (56320 \<le> u \<and> u \<le> 57343)"

definition scalarOfUnit :: "nat \<Rightarrow> nat" where
  "scalarOfUnit u = (if isLead u \<or> isTrail u then 65533 else u)"

fun utf16_scalars :: "jsstring \<Rightarrow> nat list" where
  "utf16_scalars [] = []"
| "utf16_scalars [u] = [scalarOfUnit u]"
| "utf16_scalars (u # v # us) =
     (if isLead u \<and> isTrail v
      then (65536 + (u - 55296) * 1024 + (v - 56320)) # utf16_scalars us
      else scalarOfUnit u # utf16_scalars (v # us))"

definition utf8_bytes :: "nat \<Rightarrow> nat list" where
  "utf8_bytes c =
     (if c < 128 then [c]
      else if c < 2048 then [192 + c div 64, 128 + c mod 64]
      else if c < 65536 then [224 + c div 4096, 128 + c div 64 mod 64, 128 + c mod 64]
      else [240 + c div 262144, 128 + c div 4096 mod 64, 128 + c div 64 mod 64, 128 + c mod 64])"

definition TextEncoder_encode :: "jsstring \<Rightarrow> bytes" where
  "TextEncoder_encode s = map of_nat (concat (map utf8_bytes (utf16_scalars s)))"

record utf8_state =
  code_point :: nat
  bytes_seen :: nat
  bytes_needed :: nat
  lower_boundary :: nat
  upper_boundary :: nat

definition utf8_initial :: utf8_state where
  "utf8_initial = \<lparr> code_point = 0, bytes_seen = 0, bytes_needed = 0,
                    lower_boundary = 128, upper_boundary = 191 \<rparr>"

datatype utf8_result = Scalar nat | Continue utf8_state | Failure

text \<open>
  The decoder's handler for an octet read when no octet is pending. The masks
  \<^verbatim>\<open>byte & 0x1F\<close>, \<^verbatim>\<open>byte & 0xF\<close> and \<^verbatim>\<open>byte & 0x7\<close> are written as remainders.
\<close>

definition utf8_first :: "nat \<Rightarrow> utf8_result" where
  "utf8_first b =
     (if b \<le> 127 then Scalar b
      else if 194 \<le> b \<and> b \<le> 223
        then Continue (utf8_initial\<lparr> bytes_needed := 1, code_point := b mod 32 \<rparr>)
      else if 224 \<le> b \<and> b \<le> 239
        then Continue (utf8_initial\<lparr> bytes_needed := 2, code_point := b mod 16,
               lower_boundary := (if b = 224 then 160 else 128),
               upper_boundary := (if b = 237 then 159 else 191) \<rparr>)
      else if 240 \<le> b \<and> b \<le> 244
        then Continue (utf8_initial\<lparr> bytes_needed := 3, code_point := b mod 8,
               lower_boundary := (if b = 240 then 144 else 128),
               upper_boundary := (if b = 244 then 143 else 191) \<rparr>)
      else Failure)"

text \<open>
  The decoder over a whole buffer, an error written as U+FFFD. An octet outside the
  boundaries ends the pending sequence with an error and is then read again as a first
  octet; \<^verbatim>\<open>(code_point << 6) | (byte & 0x3F)\<close> is \<open>code_point * 64 + byte mod 64\<close>.
\<close>

fun utf8_decode :: "utf8_state \<Rightarrow> nat list \<Rightarrow> nat list" where
  "utf8_decode st [] = (if bytes_needed st \<noteq> 0 then [65533] else [])"
| "utf8_decode st (b # bs) =
     (if bytes_needed st = 0 \<or> b < lower_boundary st \<or> upper_boundary st < b
      then (if bytes_needed st = 0 then [] else [65533]) @
           (case utf8_first b of
              Scalar c \<Rightarrow> c # utf8_decode utf8_initial bs
            | Continue st' \<Rightarrow> utf8_decode st' bs
            | Failure \<Rightarrow> 65533 # utf8_decode utf8_initial bs)
      else if bytes_seen st + 1 \<noteq> bytes_needed st
        then utf8_decode (st\<lparr> lower_boundary := 128, upper_boundary := 191,
               code_point := code_point st * 64 + b mod 64,
               bytes_seen := bytes_seen st + 1 \<rparr>) bs
      else (code_point st * 64 + b mod 64) # utf8_decode utf8_initial bs)"

definition stripBOM :: "nat list \<Rightarrow> nat list" where
  "stripBOM cs = (case cs of [] \<Rightarrow> [] | c # rest \<Rightarrow> if c = 65279 then rest else c # rest)"

definition unitsOfScalar :: "nat \<Rightarrow> jsstring" where
  "unitsOfScalar c =
     (if c < 65536 then [c]
      else [55296 + (c - 65536) div 1024, 56320 + (c - 65536) mod 1024])"

definition TextDecoder_decode :: "bytes \<Rightarrow> jsstring" where
  "TextDecoder_decode buffer =
     concat (map unitsOfScalar (stripBOM (utf8_decode utf8_initial (map unat buffer))))"

definition stringToArrayBuffer :: "jsstring \<Rightarrow> bytes" where
  "stringToArrayBuffer str = TextEncoder_encode str"

definition arrayBufferToString :: "bytes \<Rightarrow> jsstring" where
  "arrayBufferToString buffer = TextDecoder_decode buffer"

text \<open>
  A string a JavaScript program can hold that is also well-formed Unicode: every code
  unit is below \<open>2^16\<close> and every surrogate is half of a pair.
\<close>

fun wellFormed :: "jsstring \<Rightarrow> bool" where
  "wellFormed [] = True"
| "wellFormed [u] = (u < 65536 \<and> \<not> isLead u \<and> \<not> isTrail u)"
| "wellFormed (u # v # us) =
     (if isLead u then isTrail v \<and> wellFormed us
      else u < 65536 \<and> \<not> isTrail u \<and> wellFormed (v # us))"

subsection \<open>The platform\<close>

text \<open>
  What the JavaScript platform provides and the repository does not define is a parameter
  of the functions below. The first three fields are \<^verbatim>\<open>crypto.subtle\<close>: a promise that
  rejects is \<open>None\<close>; \<^verbatim>\<open>importKey('raw', ...)\<close> only wraps the octets it is given, so
  \<open>deriveKey\<close> takes them directly; \<open>'k\<close> is the opaque \<^verbatim>\<open>CryptoKey\<close>; \<open>encrypt\<close> and
  \<open>decrypt\<close> take the key, the \<^verbatim>\<open>iv\<close> of the AES-GCM parameters and the data. The other
  three are the parts of the language's library that are not written out here:
  \<open>lowerCaseBeyondLatin1\<close> is \<^verbatim>\<open>String.prototype.toLowerCase\<close> on a string that has a code
  unit above 255, \<open>exponentForm\<close> is \<^verbatim>\<open>Number.prototype.toString\<close> on an integer from
  \<open>10^21\<close> on, and \<open>maxByteLength\<close> is the longest \<^verbatim>\<open>Uint8Array\<close> the engine allocates.
\<close>

datatype hash_name = SHA_1 | SHA_256 | SHA_384 | SHA_512

datatype cipher_name = AES_GCM | AES_CBC | AES_CTR

record Pbkdf2Params =
  salt :: bytes
  iterations :: nat
  hash :: hash_name

record AesDerivedKeyParams =
  cipher :: cipher_name
  key_length :: nat

record 'k platform =
  deriveKey :: "Pbkdf2Params \<Rightarrow> bytes \<Rightarrow> AesDerivedKeyParams \<Rightarrow> 'k option"
  encrypt :: "'k \<Rightarrow> bytes \<Rightarrow> bytes \<Rightarrow> bytes option"
  decrypt :: "'k \<Rightarrow> bytes \<Rightarrow> bytes \<Rightarrow> bytes option"
  lowerCaseBeyondLatin1 :: "jsstring \<Rightarrow> jsstring"
  exponentForm :: "nat \<Rightarrow> jsstring"
  maxByteLength :: nat

subsection \<open>Key derivation\<close>

text \<open>
  \<^verbatim>\<open>String.prototype.toLowerCase\<close>. On a string whose code units are all below 256 it
  maps each unit by itself: the capital letters A to Z and U+00C0 to U+00DE, U+00D7
  excepted, move up by 32, every other unit stays. On any other string it is the
  platform's.
\<close>

definition lowerLatin1 :: "nat \<Rightarrow> nat" where
  "lowerLatin1 u =
     (if (65 \<le> u \<and> u \<le> 90) \<or> (192 \<le> u \<and> u \<le> 222 \<and> u \<noteq> 215) then u + 32 else u)"

definition toLowerCase :: "'k platform \<Rightarrow> jsstring \<Rightarrow> jsstring" where
  "toLowerCase W s =
     (if list_all (\<lambda>u. u < 256) s then map lowerLatin1 s else lowerCaseBeyondLatin1 W s)"

text \<open>
  \<^verbatim>\<open>chainId.toString()\<close> for a chain id that is a non-negative integer: its decimal
  digits below \<open>10^21\<close>, the platform's exponent form from there on.
\<close>

fun decimalDigits :: "nat \<Rightarrow> jsstring" where
  "decimalDigits n = (if n < 10 then [48 + n] else decimalDigits (n div 10) @ [48 + n mod 10])"

definition toString10 :: "'k platform \<Rightarrow> nat \<Rightarrow> jsstring" where
  "toString10 W n = (if n < 10 ^ 21 then decimalDigits n else exponentForm W n)"

definition keyMaterial :: "'k platform \<Rightarrow> jsstring \<Rightarrow> nat \<Rightarrow> jsstring" where
  "keyMaterial W address chainId =
     (let normalizedAddress = toLowerCase W address;
          normalizedAddress = (if take 2 normalizedAddress = js ''0x''
                               then drop 2 normalizedAddress else normalizedAddress)
      in normalizedAddress @ toString10 W chainId)"

text \<open>
  The two algorithm objects of the \<^verbatim>\<open>deriveKey\<close> call:
  \<^verbatim>\<open>{ name: 'PBKDF2', salt: salt, iterations: 1000, hash: 'SHA-256' }\<close> and
  \<^verbatim>\<open>{ name: 'AES-GCM', length: 256 }\<close>.
\<close>

definition pbkdf2Params :: Pbkdf2Params where
  "pbkdf2Params =
     \<lparr> salt = stringToArrayBuffer (js ''secure-device-maintenance-salt''),
       iterations = 1000, hash = SHA_256 \<rparr>"

definition derivedKeyParams :: AesDerivedKeyParams where
  "derivedKeyParams = \<lparr> cipher = AES_GCM, key_length = 256 \<rparr>"

definition deriveKeyFromAddress :: "'k platform \<Rightarrow> jsstring \<Rightarrow> nat \<Rightarrow> 'k option" where
  "deriveKeyFromAddress W address chainId =
     (let keyMaterialBuffer = stringToArrayBuffer (keyMaterial W address chainId)
      in deriveKey W pbkdf2Params keyMaterialBuffer derivedKeyParams)"

subsection \<open>Encryption and decryption\<close>

text \<open>
  Both functions wrap whatever is thrown inside their \<^verbatim>\<open>try\<close> block in an \<^verbatim>\<open>Error\<close>
  whose message starts with "Encryption failed: " or "Decryption failed: ". The three
  things that can be thrown are the two format errors of \<^verbatim>\<open>decryptString\<close> and a
  rejection by \<^verbatim>\<open>crypto.subtle\<close>.
\<close>

datatype thrown =
    Missing_IV_separator
  | Expected_iv_encryptedData
  | Rejected

datatype error = Encryption_failed thrown | Decryption_failed thrown

text \<open>\<^verbatim>\<open>str.split(sep)\<close> for a separator of one code unit.\<close>

fun split_on :: "nat \<Rightarrow> jsstring \<Rightarrow> jsstring list" where
  "split_on sep [] = [[]]"
| "split_on sep (c # cs) =
     (if c = sep then [] # split_on sep cs
      else (case split_on sep cs of [] \<Rightarrow> [[c]] | p # ps \<Rightarrow> (c # p) # ps))"

text \<open>\<open>iv\<close> is what \<^verbatim>\<open>crypto.getRandomValues(new Uint8Array(12))\<close> returned.\<close>

definition encryptString :: "'k platform \<Rightarrow> bytes \<Rightarrow> jsstring \<Rightarrow> jsstring \<Rightarrow> nat \<Rightarrow> error + jsstring" where
  "encryptString W iv plaintext address chainId =
     (case deriveKeyFromAddress W address chainId of
        None \<Rightarrow> Inl (Encryption_failed Rejected)
      | Some key \<Rightarrow>
          (case encrypt W key iv (stringToArrayBuffer plaintext) of
             None \<Rightarrow> Inl (Encryption_failed Rejected)
           | Some encrypted \<Rightarrow> Inr (bytesToHex iv @ js '':'' @ bytesToHex encrypted)))"

definition decryptString :: "'k platform \<Rightarrow> jsstring \<Rightarrow> jsstring \<Rightarrow> nat \<Rightarrow> error + jsstring" where
  "decryptString W encryptedData address chainId =
     (if 58 \<notin> set encryptedData then Inl (Decryption_failed Missing_IV_separator)
      else let parts = split_on 58 encryptedData in
        if length parts \<noteq> 2 then Inl (Decryption_failed Expected_iv_encryptedData)
        else let iv = hexToBytes (parts ! 0);
                 encryptedBytes = hexToBytes (parts ! 1)
             in (case deriveKeyFromAddress W address chainId of
                   None \<Rightarrow> Inl (Decryption_failed Rejected)
                 | Some key \<Rightarrow>
                     (case decrypt W key iv encryptedBytes of
                        None \<Rightarrow> Inl (Decryption_failed Rejected)
                      | Some decrypted \<Rightarrow> Inr (arrayBufferToString decrypted))))"

text \<open>\<^verbatim>\<open>encryptedData.replace(':', '')\<close> removes the first colon only.\<close>

definition encryptedStringToBytes :: "jsstring \<Rightarrow> bytes" where
  "encryptedStringToBytes encryptedData = hexToBytes (remove1 58 encryptedData)"

definition bytesToEncryptedString :: "bytes \<Rightarrow> nat \<Rightarrow> jsstring" where
  "bytesToEncryptedString bs ivLength =
     (let iv = take ivLength bs; encrypted = drop ivLength bs
      in bytesToHex iv @ js '':'' @ bytesToHex encrypted)"

text \<open>
  What a correct authenticated cipher gives: decrypting, with the same key and \<open>iv\<close>,
  what encryption returned gives the data back.
\<close>

definition decrypt_inverts_encrypt :: "'k platform \<Rightarrow> bool" where
  "decrypt_inverts_encrypt W =
     (\<forall>key iv data out. encrypt W key iv data = Some out \<longrightarrow> decrypt W key iv out = Some data)"

text \<open>
  A small stand-in for the platform, for evaluating the functions on concrete inputs. The
  key is the first octets of the key material; the ciphertext is the data followed by a
  tag, the first 16 octets of \<open>iv\<close> and key; decryption checks the tag. Arrays of up to
  \<open>2^32 - 1\<close> octets are allocated.
\<close>

definition toy_tag :: "bytes \<Rightarrow> bytes \<Rightarrow> bytes" where
  "toy_tag key iv = take 16 (iv @ key)"

definition toy_platform :: "bytes platform" where
  "toy_platform =
     \<lparr> deriveKey = (\<lambda>p raw d. Some (take (key_length d div 8) (raw @ salt p))),
       encrypt = (\<lambda>key iv data. Some (data @ toy_tag key iv)),
       decrypt = (\<lambda>key iv data.
         (let n = length data - length (toy_tag key iv)
          in if length (toy_tag key iv) \<le> length data \<and> drop n data = toy_tag key iv
             then Some (take n data) else None)),
       lowerCaseBeyondLatin1 = (\<lambda>s. s),
       exponentForm = (\<lambda>n. []),
       maxByteLength = 4294967295 \<rparr>"

text \<open>The Unicode scalar values: the code points that are not surrogates.\<close>

definition isScalar :: "nat \<Rightarrow> bool" where
  "isScalar c = (c < 1114112 \<and> \<not> (55296 \<le> c \<and> c \<le> 57343))"


definition isLowerHex :: "nat \<Rightarrow> bool" where
  "isLowerHex u = ((48 \<le> u \<and> u \<le> 57) \<or> (97 \<le> u \<and> u \<le> 102))"

text \<open>A platform that answers \<^verbatim>\<open>deriveKey\<close> with the iteration count it was asked for.\<close>

definition probe_platform :: "nat platform" where
  "probe_platform =
     \<lparr> deriveKey = (\<lambda>p raw d. Some (iterations p)),
       encrypt = (\<lambda>key iv data. None),
       decrypt = (\<lambda>key iv data. None),
       lowerCaseBeyondLatin1 = (\<lambda>s. s),
       exponentForm = (\<lambda>n. []),
       maxByteLength = 4294967295 \<rparr>"

section \<open>The hook: ui/src/hooks/useDeviceContract.ts\<close>

text \<open>
  The functions of the hook that write and read the ciphertext fields. The connected
  account appears twice: \<open>address\<close> is the string the wallet reports and \<open>sender\<close> is the
  same account as the \<^verbatim>\<open>msg.sender\<close> of the calls the signer makes. \<open>now\<close> is
  \<^verbatim>\<open>Date.now()\<close>, in milliseconds. \<^verbatim>\<open>!address\<close> holds of the empty string and
  \<^verbatim>\<open>!chainId\<close> of 0, as they do of \<^verbatim>\<open>undefined\<close>. \<^verbatim>\<open>ethers.toUtf8Bytes\<close> writes a
  string in UTF-8, and what a call through ethers returns for a \<^verbatim>\<open>bytes\<close> output is the
  string \<open>hexlify\<close> makes of the octets: \<^verbatim>\<open>0x\<close> and two lower-case digits for each.
  The wallet client and the configured contract address are taken to be there, so
  \<^verbatim>\<open>getContract\<close> does not throw. The functions carry the prefix \<open>hook_\<close>, the contract
  having functions of the same names, and local names that are fields of the contract's
  struct are shortened (\<open>encNotes\<close> for \<^verbatim>\<open>encryptedNotes\<close>, \<open>lastMaint\<close> for
  \<^verbatim>\<open>lastMaintenance\<close>).
\<close>

datatype hook_error =
    Wallet_not_connected
  | Cipher_error error
  | Call_reverted revert
  | Invalid_status

definition toUtf8Bytes :: "jsstring \<Rightarrow> bytes" where
  "toUtf8Bytes str = TextEncoder_encode str"

text \<open>The ABI's \<^verbatim>\<open>uint8 status\<close> as the contract's enum; a value that is no member fails the call.\<close>

definition statusOfNumber :: "nat \<Rightarrow> DeviceStatus option" where
  "statusOfNumber n = (if n = 0 then Some Operational else if n = 1 then Some Maintenance
                       else if n = 2 then Some Critical else None)"

definition hook_registerDevice ::
  "'k platform \<Rightarrow> contract \<Rightarrow> address \<Rightarrow> jsstring \<Rightarrow> nat \<Rightarrow> nat \<Rightarrow> bytes \<Rightarrow> bytes
     \<Rightarrow> string \<Rightarrow> string \<Rightarrow> string \<Rightarrow> nat \<Rightarrow> jsstring \<Rightarrow> jsstring
     \<Rightarrow> hook_error + contract \<times> event list" where
  "hook_registerDevice W s sender address chainId now iv1 iv2 deviceId nm dt st notes calibration =
     (if address = [] \<or> chainId = 0 then Inl Wallet_not_connected
      else case encryptString W iv1 notes address chainId of
        Inl e \<Rightarrow> Inl (Cipher_error e)
      | Inr encNotes \<Rightarrow>
         (case encryptString W iv2 calibration address chainId of
            Inl e \<Rightarrow> Inl (Cipher_error e)
          | Inr encCalibration \<Rightarrow>
             (let notesBytes = toUtf8Bytes encNotes;
                  calibrationBytes = toUtf8Bytes encCalibration;
                  lastMaint = now div 1000;
                  nextCalib = lastMaint + 30 * 24 * 60 * 60
              in case statusOfNumber st of
                   None \<Rightarrow> Inl Invalid_status
                 | Some status' \<Rightarrow>
                    (case registerDevice s sender deviceId nm dt status' (of_nat lastMaint)
                            (of_nat nextCalib) notesBytes calibrationBytes of
                       Inl r \<Rightarrow> Inl (Call_reverted r)
                     | Inr result \<Rightarrow> Inr result))))"

definition hook_updateMaintenance ::
  "'k platform \<Rightarrow> contract \<Rightarrow> address \<Rightarrow> uint256 \<Rightarrow> jsstring \<Rightarrow> nat \<Rightarrow> nat \<Rightarrow> bytes \<Rightarrow> bytes
     \<Rightarrow> string \<Rightarrow> nat \<Rightarrow> jsstring \<Rightarrow> jsstring
     \<Rightarrow> hook_error + contract \<times> event list" where
  "hook_updateMaintenance W s sender ts address chainId now iv1 iv2 deviceId st notes calibration =
     (if address = [] \<or> chainId = 0 then Inl Wallet_not_connected
      else case encryptString W iv1 notes address chainId of
        Inl e \<Rightarrow> Inl (Cipher_error e)
      | Inr encNotes \<Rightarrow>
         (case encryptString W iv2 calibration address chainId of
            Inl e \<Rightarrow> Inl (Cipher_error e)
          | Inr encCalibration \<Rightarrow>
             (let notesBytes = toUtf8Bytes encNotes;
                  calibrationBytes = toUtf8Bytes encCalibration;
                  lastMaint = now div 1000;
                  nextCalib = lastMaint + 30 * 24 * 60 * 60
              in case statusOfNumber st of
                   None \<Rightarrow> Inl Invalid_status
                 | Some status' \<Rightarrow>
                    (case updateMaintenance s sender ts deviceId status' (of_nat lastMaint)
                            (of_nat nextCalib) notesBytes calibrationBytes of
                       Inl r \<Rightarrow> Inl (Call_reverted r)
                     | Inr result \<Rightarrow> Inr result))))"

definition hexlify :: "bytes \<Rightarrow> jsstring" where
  "hexlify bs = js ''0x'' @ bytesToHex bs"

text \<open>
  \<^verbatim>\<open>new Uint8Array(records[0])\<close>, where \<^verbatim>\<open>records[0]\<close> is such a string. A string is
  not an object, so the constructor takes it as a length: the number the string reads as
  is the number of octets, all of them 0. A string of \<^verbatim>\<open>0x\<close> and hexadecimal digits
  reads as the number the digits write; \<^verbatim>\<open>0x\<close> with no digit, or with anything else
  after it, reads as \<^verbatim>\<open>NaN\<close>, which is the length 0. A length above \<open>2^53 - 1\<close>, or one
  the engine does not allocate, is a \<^verbatim>\<open>RangeError\<close> (\<open>None\<close>). The octets the string
  spells are not read. Strings that do not begin with \<^verbatim>\<open>0x\<close> are none that \<open>hexlify\<close>
  makes, and the other notations of numbers are not written out: they are read as
  \<^verbatim>\<open>NaN\<close> here.
\<close>

definition newUint8Array :: "'k platform \<Rightarrow> jsstring \<Rightarrow> bytes option" where
  "newUint8Array W s =
     (let digits = drop 2 s;
          n = (if take 2 s = js ''0x'' \<and> digits \<noteq> [] \<and> list_all isHexDigit digits
               then hexNumber digits else 0)
      in if n \<le> 2 ^ 53 - 1 \<and> n \<le> maxByteLength W then Some (replicate n 0) else None)"

text \<open>
  \<^verbatim>\<open>getEncryptedRecords\<close> of the hook throws when no wallet is connected; anything thrown
  inside its \<^verbatim>\<open>try\<close> block, a revert of the call or a \<^verbatim>\<open>RangeError\<close>, is caught and
  \<^verbatim>\<open>null\<close> (\<open>None\<close>) is returned. The two arrays are turned into strings by
  \<^verbatim>\<open>bytesToEncryptedString\<close> with its default \<^verbatim>\<open>ivLength\<close> of 12.
\<close>

definition hook_getEncryptedRecords ::
  "'k platform \<Rightarrow> contract \<Rightarrow> address \<Rightarrow> jsstring \<Rightarrow> string
     \<Rightarrow> hook_error + (jsstring \<times> jsstring) option" where
  "hook_getEncryptedRecords W s sender address deviceId =
     (if address = [] then Inl Wallet_not_connected
      else case getEncryptedRecords s sender deviceId of
        Inl r \<Rightarrow> Inr None
      | Inr (records0, records1) \<Rightarrow>
         (case newUint8Array W (hexlify records0) of
            None \<Rightarrow> Inr None
          | Some notesBytesArray \<Rightarrow>
             (case newUint8Array W (hexlify records1) of
                None \<Rightarrow> Inr None
              | Some calibrationBytesArray \<Rightarrow>
                  Inr (Some (bytesToEncryptedString notesBytesArray 12,
                             bytesToEncryptedString calibrationBytesArray 12)))))"

definition hook_decryptDeviceRecords ::
  "'k platform \<Rightarrow> contract \<Rightarrow> address \<Rightarrow> jsstring \<Rightarrow> nat \<Rightarrow> string
     \<Rightarrow> hook_error + (jsstring \<times> jsstring) option" where
  "hook_decryptDeviceRecords W s sender address chainId deviceId =
     (if address = [] \<or> chainId = 0 then Inl Wallet_not_connected
      else case hook_getEncryptedRecords W s sender address deviceId of
        Inl e \<Rightarrow> Inr None
      | Inr None \<Rightarrow> Inr None
      | Inr (Some (encNotes, encCalibration)) \<Rightarrow>
         (case decryptString W encNotes address chainId of
            Inl e \<Rightarrow> Inr None
          | Inr notes \<Rightarrow>
             (case decryptString W encCalibration address chainId of
                Inl e \<Rightarrow> Inr None
              | Inr calibration \<Rightarrow> Inr (Some (notes, calibration)))))"

text \<open>Account 1 as the wallet reports it, and the chain id of a local Hardhat node.\<close>

definition account1 :: jsstring where
  "account1 = js ''0x0000000000000000000000000000000000000001''"

definition hardhat :: nat where
  "hardhat = 31337"

section \<open>Properties of the ledger\<close>

lemmas contract_defs = registerDevice_def updateMaintenance_def getDeviceInfo_def
  getEncryptedRecords_def authorizeTechnician_def revokeTechnician_def isAuthorized_def
  onlyOwner_def onlyAuthorized_def mutating_def




lemma example_ledger_device:
  "devices example_ledger ''dev-001'' =
     \<lparr> name = ''MRI-X200'', deviceType = ''Imaging'', status = Operational,
       lastMaintenance = 100, nextCalibration = 200,
       encryptedNotes = [1, 2, 3], encryptedCalibration = [4, 5], exists = True \<rparr>"
  by (simp add: example_ledger_def contract_defs constructor_def zero_device_def)

lemma other_ledger_device:
  "devices other_ledger ''dev-001'' =
     \<lparr> name = ''CT-900'', deviceType = ''Tomography'', status = Operational,
       lastMaintenance = 100, nextCalibration = 200,
       encryptedNotes = [1, 2, 3], encryptedCalibration = [4, 5], exists = True \<rparr>"
  by (simp add: other_ledger_def contract_defs constructor_def zero_device_def)

lemma example_ledger_auth:
  "authorizedTechnicians example_ledger a = (a = 1)" "owner example_ledger = 1"
  by (simp_all add: example_ledger_def contract_defs constructor_def)

lemma other_ledger_auth:
  "authorizedTechnicians other_ledger a = (a = 1)" "owner other_ledger = 1"
  by (simp_all add: other_ledger_def contract_defs constructor_def)


lemma redact_eqD:
  assumes "redact s1 = redact s2"
  shows "owner s1 = owner s2" "authorizedTechnicians s1 = authorizedTechnicians s2"
    "name (devices s1 d) = name (devices s2 d)"
    "deviceType (devices s1 d) = deviceType (devices s2 d)"
    "status (devices s1 d) = status (devices s2 d)"
    "lastMaintenance (devices s1 d) = lastMaintenance (devices s2 d)"
    "nextCalibration (devices s1 d) = nextCalibration (devices s2 d)"
    "exists (devices s1 d) = exists (devices s2 d)"
proof -
  from assms have o: "owner (redact s1) = owner (redact s2)"
    and a: "authorizedTechnicians (redact s1) = authorizedTechnicians (redact s2)"
    and d: "devices (redact s1) d = devices (redact s2) d" by simp_all
  from o show "owner s1 = owner s2" by (simp add: redact_def)
  from a show "authorizedTechnicians s1 = authorizedTechnicians s2" by (simp add: redact_def)
  from d have e: "(devices s1 d)\<lparr> encryptedNotes := [], encryptedCalibration := [] \<rparr>
     = (devices s2 d)\<lparr> encryptedNotes := [], encryptedCalibration := [] \<rparr>"
    by (simp add: redact_def)
  from arg_cong[OF e, of name] show "name (devices s1 d) = name (devices s2 d)" by simp
  from arg_cong[OF e, of deviceType] show "deviceType (devices s1 d) = deviceType (devices s2 d)" by simp
  from arg_cong[OF e, of status] show "status (devices s1 d) = status (devices s2 d)" by simp
  from arg_cong[OF e, of lastMaintenance] show "lastMaintenance (devices s1 d) = lastMaintenance (devices s2 d)" by simp
  from arg_cong[OF e, of nextCalibration] show "nextCalibration (devices s1 d) = nextCalibration (devices s2 d)" by simp
  from arg_cong[OF e, of exists] show "exists (devices s1 d) = exists (devices s2 d)" by simp
qed

lemma unauthorized_results_hide_ciphertext:
  assumes r: "redact s1 = redact s2"
    and u: "\<not> isAuthorized s1 sender"
    and g: "\<And>deviceId. c \<noteq> Devices deviceId"
  shows "snd (transact s1 sender ts c) = snd (transact s2 sender ts c)"
proof -
  note e = redact_eqD[OF r]
  from u have u1: "\<not> authorizedTechnicians s2 sender" "sender \<noteq> owner s2"
    by (simp_all add: isAuthorized_def e)
  show ?thesis
  proof (cases c)
    case (Devices d)
    with g [of d] show ?thesis by simp
  qed (simp_all add: contract_defs e u1 authorizedTechnicians_getter_def owner_getter_def Let_def)
qed

text \<open>
  Claim C1. For a caller that is neither the owner nor an authorized technician, no
  external function of the contract returns the ciphertext fields of a record.

  The code does not keep this. \<^verbatim>\<open>getEncryptedRecords\<close> is gated by \<^verbatim>\<open>onlyAuthorized\<close>,
  but \<^verbatim>\<open>devices\<close> is declared \<^verbatim>\<open>public\<close>, and its generated getter hands the whole
  struct, both ciphertext fields included, to any caller, in any state. Account 2 is
  neither owner nor technician of the example deployment: its call of the gated read
  reverts, its call of the getter returns the stored ciphertext. The getter is the only
  such path: by \<open>unauthorized_results_hide_ciphertext\<close> the result of every other call
  by such a caller is the same on ledgers that differ in ciphertext only.
\<close>

theorem C1_public_getter_returns_ciphertext:
  "snd (transact s sender ts (Devices deviceId)) = Returned (DeviceStruct (devices s deviceId)) []
   \<and> \<not> isAuthorized example_ledger 2
   \<and> snd (transact example_ledger 2 300 (GetEncryptedRecords ''dev-001'')) =
       Reverted Not_authorized_technician
   \<and> snd (transact example_ledger 2 300 (Devices ''dev-001'')) =
       Returned (DeviceStruct
         \<lparr> name = ''MRI-X200'', deviceType = ''Imaging'', status = Operational,
           lastMaintenance = 100, nextCalibration = 200,
           encryptedNotes = [1, 2, 3], encryptedCalibration = [4, 5], exists = True \<rparr>) []"
  by (simp add: isAuthorized_def getEncryptedRecords_def onlyAuthorized_def
      devices_getter_def example_ledger_device example_ledger_auth)

lemma updateMaintenance_succeeds:
  assumes "onlyAuthorized s sender" "exists (devices s deviceId)" "notes \<noteq> []" "calib \<noteq> []"
  shows "\<exists>s'. updateMaintenance s sender ts deviceId st lm nc notes calib =
           Inr (s', [MaintenanceUpdated deviceId sender ts])"
  using assms by (simp add: updateMaintenance_def)

text \<open>
  Claim C5, as the code has it. A successful \<^verbatim>\<open>updateMaintenance\<close> (the caller passed
  \<^verbatim>\<open>onlyAuthorized\<close>, the record exists, both ciphertexts are non-empty) overwrites the
  status, the two timestamps and both ciphertext fields of that record, keeps its name,
  its device type and its existence flag, changes no other record and nothing of the
  authorization table or the owner, and emits exactly one \<^verbatim>\<open>MaintenanceUpdated\<close> event
  with the id, the caller and the block timestamp. (Under those three conditions the
  update does succeed: \<open>updateMaintenance_succeeds\<close>.)
\<close>

theorem C5_update_overwrites_maintenance_fields:
  "updateMaintenance s sender ts deviceId st lm nc notes calib = Inr (s', evs) \<Longrightarrow>
     onlyAuthorized s sender \<and> exists (devices s deviceId)
     \<and> devices s' = (devices s)(deviceId :=
          \<lparr> name = name (devices s deviceId), deviceType = deviceType (devices s deviceId),
            status = st, lastMaintenance = lm, nextCalibration = nc,
            encryptedNotes = notes, encryptedCalibration = calib, exists = True \<rparr>)
     \<and> authorizedTechnicians s' = authorizedTechnicians s \<and> owner s' = owner s
     \<and> evs = [MaintenanceUpdated deviceId sender ts]"
  by (auto simp: contract_defs split: if_splits)

theorem C5_update_witness:
  "updateMaintenance example_ledger 1 500 ''dev-001'' Critical 7 9 [6] [7] =
     Inr (example_ledger\<lparr> devices := (devices example_ledger)(''dev-001'' :=
            \<lparr> name = ''MRI-X200'', deviceType = ''Imaging'', status = Critical,
              lastMaintenance = 7, nextCalibration = 9,
              encryptedNotes = [6], encryptedCalibration = [7], exists = True \<rparr>) \<rparr>,
          [MaintenanceUpdated ''dev-001'' 1 500])
   \<and> devices (example_ledger\<lparr> devices := (devices example_ledger)(''dev-001'' :=
            \<lparr> name = ''MRI-X200'', deviceType = ''Imaging'', status = Critical,
              lastMaintenance = 7, nextCalibration = 9,
              encryptedNotes = [6], encryptedCalibration = [7], exists = True \<rparr>) \<rparr>) =
       (devices example_ledger)(''dev-001'' :=
          \<lparr> name = name (devices example_ledger ''dev-001''),
            deviceType = deviceType (devices example_ledger ''dev-001''),
            status = Critical, lastMaintenance = 7, nextCalibration = 9,
            encryptedNotes = [6], encryptedCalibration = [7], exists = True \<rparr>)"
proof -
  have run: "updateMaintenance example_ledger 1 500 ''dev-001'' Critical 7 9 [6] [7] =
     Inr (example_ledger\<lparr> devices := (devices example_ledger)(''dev-001'' :=
            \<lparr> name = ''MRI-X200'', deviceType = ''Imaging'', status = Critical,
              lastMaintenance = 7, nextCalibration = 9,
              encryptedNotes = [6], encryptedCalibration = [7], exists = True \<rparr>) \<rparr>,
          [MaintenanceUpdated ''dev-001'' 1 500])"
    by (simp add: updateMaintenance_def onlyAuthorized_def example_ledger_device
        example_ledger_auth)
  from C5_update_overwrites_maintenance_fields [OF run] run show ?thesis
    by simp
qed

text \<open>
  Claim C5 as stated says a successful update is a full replace: every visible field,
  the name and the device type included, is overwritten by the call. It is not: the same
  update, run on two ledgers whose record differs in name and type only, succeeds on
  both and leaves each record with the name and type it had.
\<close>

theorem C5_update_keeps_name_and_type:
  "snd (transact example_ledger 1 500 (UpdateMaintenance ''dev-001'' Critical 7 9 [6] [7])) =
     Returned Unit [MaintenanceUpdated ''dev-001'' 1 500]
   \<and> snd (transact other_ledger 1 500 (UpdateMaintenance ''dev-001'' Critical 7 9 [6] [7])) =
     Returned Unit [MaintenanceUpdated ''dev-001'' 1 500]
   \<and> devices (fst (transact example_ledger 1 500
        (UpdateMaintenance ''dev-001'' Critical 7 9 [6] [7]))) ''dev-001'' =
       \<lparr> name = ''MRI-X200'', deviceType = ''Imaging'', status = Critical,
         lastMaintenance = 7, nextCalibration = 9,
         encryptedNotes = [6], encryptedCalibration = [7], exists = True \<rparr>
   \<and> devices (fst (transact other_ledger 1 500
        (UpdateMaintenance ''dev-001'' Critical 7 9 [6] [7]))) ''dev-001'' =
       \<lparr> name = ''CT-900'', deviceType = ''Tomography'', status = Critical,
         lastMaintenance = 7, nextCalibration = 9,
         encryptedNotes = [6], encryptedCalibration = [7], exists = True \<rparr>"
  by (simp add: updateMaintenance_def onlyAuthorized_def mutating_def
      example_ledger_device example_ledger_auth other_ledger_device other_ledger_auth)

text \<open>
  Claim C7, as the code has it. When a record with the id exists, \<^verbatim>\<open>registerDevice\<close>
  with that id reverts and the state is exactly what it was. The \<^verbatim>\<open>onlyAuthorized\<close>
  modifier runs before the body, so the message is "Device already exists" for a caller
  that passes the modifier and "Not authorized technician" for one that does not.
\<close>

theorem C7_register_existing_id_reverts:
  "exists (devices s deviceId) \<Longrightarrow>
     transact s sender ts (RegisterDevice deviceId nm dt st lm nc notes calib) =
       (s, Reverted (if onlyAuthorized s sender then Device_already_exists
                     else Not_authorized_technician))"
  by (simp add: registerDevice_def mutating_def)

theorem C7_register_existing_id_witness:
  "exists (devices example_ledger ''dev-001'')
   \<and> onlyAuthorized example_ledger 1
   \<and> transact example_ledger 1 300
        (RegisterDevice ''dev-001'' ''X-Ray'' ''Imaging'' Critical 1 2 [9] [9]) =
       (example_ledger, Reverted Device_already_exists)"
proof -
  have e: "exists (devices example_ledger ''dev-001'')"
    by (simp add: example_ledger_device)
  have a: "onlyAuthorized example_ledger 1"
    by (simp add: onlyAuthorized_def example_ledger_auth)
  from C7_register_existing_id_reverts [OF e, of 1 300 "''X-Ray''" "''Imaging''" Critical 1 2 "[9]" "[9]"]
    e a show ?thesis by simp
qed

text \<open>
  Claim C7 as stated names the failure \<^verbatim>\<open>DuplicateId\<close> for every register call with an
  existing id. Account 2 is not authorized on the example deployment; its register call
  with the existing id reverts with "Not authorized technician".
\<close>

theorem C7_unauthorized_duplicate_is_not_authorized:
  "exists (devices example_ledger ''dev-001'')
   \<and> transact example_ledger 2 300
        (RegisterDevice ''dev-001'' ''X-Ray'' ''Imaging'' Critical 1 2 [9] [9]) =
       (example_ledger, Reverted Not_authorized_technician)"
  by (simp add: registerDevice_def mutating_def onlyAuthorized_def
      example_ledger_device example_ledger_auth)




section \<open>Properties of the cipher\<close>

subsection \<open>Hexadecimal strings\<close>

lemma js_simps [simp]: "js [] = []" "js (c # cs) = of_char c # js cs"
  by (simp_all add: js_def)

lemma hexValue_hexDigit: "d < 16 \<Longrightarrow> hexValue (hexDigit d) = Some d"
  by (auto simp: hexValue_def hexDigit_def)

lemma isHexDigit_hexDigit: "d < 16 \<Longrightarrow> isHexDigit (hexDigit d)"
  by (simp add: isHexDigit_def hexValue_hexDigit)

lemma not_ws_hexDigit: "d < 16 \<Longrightarrow> \<not> isWhiteSpace (hexDigit d)"
  by (auto simp: isWhiteSpace_def hexDigit_def)

lemma hexDigit_neq:
  "d < 16 \<Longrightarrow> hexDigit d \<noteq> 45 \<and> hexDigit d \<noteq> 43 \<and> hexDigit d \<noteq> 120 \<and> hexDigit d \<noteq> 88 \<and> hexDigit d \<noteq> 58"
  by (auto simp: hexDigit_def)

lemma parseInt16_pair:
  assumes "h < 16" "l < 16"
  shows "parseInt16 [hexDigit h, hexDigit l] = Some (int (16 * h + l))"
  using assms hexDigit_neq[of h] hexDigit_neq[of l]
  by (simp add: parseInt16_def not_ws_hexDigit isHexDigit_hexDigit hexNumber_def hexValue_hexDigit Let_def)

lemma byteHex:
  "padStart2 (toString16 (unat (b::8 word))) = [hexDigit (unat b div 16), hexDigit (unat b mod 16)]"
  by (simp add: padStart2_def toString16_def hexDigit_def)

lemma bytesToHex_simps:
  "bytesToHex [] = []"
  "bytesToHex (b # bs) = hexDigit (unat b div 16) # hexDigit (unat b mod 16) # bytesToHex bs"
  by (simp_all add: bytesToHex_def byteHex)

lemma bytesToHex_append: "bytesToHex (xs @ ys) = bytesToHex xs @ bytesToHex ys"
  by (simp add: bytesToHex_def)

lemma unat_byte_div: "unat (b::8 word) div 16 < 16"
proof -
  have "unat b < 2 ^ LENGTH(8)" by (rule unsigned_less)
  then show ?thesis by simp
qed

lemma toUint8_pair:
  "toUint8 (parseInt16 [hexDigit (unat (b::8 word) div 16), hexDigit (unat b mod 16)]) = b"
proof -
  have "parseInt16 [hexDigit (unat b div 16), hexDigit (unat b mod 16)]
          = Some (int (16 * (unat b div 16) + unat b mod 16))"
    by (rule parseInt16_pair) (simp_all add: unat_byte_div)
  also have "16 * (unat b div 16) + unat b mod 16 = unat b" by simp
  finally show ?thesis by (simp add: toUint8_def)
qed

lemma hexPairs_bytesToHex: "hexPairs (bytesToHex bs @ rest) = bs @ hexPairs rest"
  by (induction bs) (simp_all add: bytesToHex_simps toUint8_pair)

lemma bytesToHex_no_prefix: "take 2 (bytesToHex bs) \<noteq> js ''0x''"
proof (cases bs)
  case Nil then show ?thesis by (simp add: bytesToHex_simps)
next
  case (Cons b bs')
  have "unat b mod 16 < 16" by simp
  from hexDigit_neq[OF this] show ?thesis by (simp add: Cons bytesToHex_simps)
qed

lemma hexToBytes_bytesToHex: "hexToBytes (bytesToHex bs) = bs"
  using hexPairs_bytesToHex[of bs "[]"] bytesToHex_no_prefix[of bs] by (simp add: hexToBytes_def)

lemma colon_notin_bytesToHex: "58 \<notin> set (bytesToHex bs)"
proof (induction bs)
  case Nil then show ?case by (simp add: bytesToHex_simps)
next
  case (Cons b bs)
  have "unat b mod 16 < 16" by simp
  from hexDigit_neq[OF this] hexDigit_neq[OF unat_byte_div[of b]] Cons
  show ?case by (simp add: bytesToHex_simps)
qed

lemma split_on_notin: "sep \<notin> set s \<Longrightarrow> split_on sep s = [s]"
  by (induction s) auto

lemma split_on_append:
  "sep \<notin> set a \<Longrightarrow> split_on sep (a @ sep # b) = a # split_on sep b"
  by (induction a) auto

lemma length_split_on: "length (split_on sep s) = Suc (count_list s sep)"
  by (induction s) (auto split: list.splits)

lemma split_on_two:
  "count_list s sep = 1 \<Longrightarrow>
     split_on sep s = [takeWhile (\<lambda>c. c \<noteq> sep) s, tl (dropWhile (\<lambda>c. c \<noteq> sep) s)]"
proof (induction s)
  case Nil then show ?case by simp
next
  case (Cons c cs)
  show ?case
  proof (cases "c = sep")
    case True
    with Cons.prems have "count_list cs sep = 0" by simp
    then have "sep \<notin> set cs" by (simp add: count_list_0_iff)
    with True show ?thesis by (simp add: split_on_notin)
  next
    case False
    with Cons show ?thesis by simp
  qed
qed

subsection \<open>UTF-8\<close>

lemmas utf8_decode_Cons = utf8_decode.simps(2)

declare utf8_decode.simps(2) [simp del]

lemma m192: "q < 32 \<Longrightarrow> (192 + q) mod 32 = (q::nat)"
  using mod_mult_self3[of 6 32 q] by simp
lemma m128: "r < 64 \<Longrightarrow> (128 + r) mod 64 = (r::nat)"
  using mod_mult_self3[of 2 64 r] by simp
lemma m224: "q < 16 \<Longrightarrow> (224 + q) mod 16 = (q::nat)"
  using mod_mult_self3[of 14 16 q] by simp
lemma m240: "q < 8 \<Longrightarrow> (240 + q) mod 8 = (q::nat)"
  using mod_mult_self3[of 30 8 q] by simp

lemma utf8_decode_1:
  "c < 128 \<Longrightarrow> utf8_decode utf8_initial (c # rest) = c # utf8_decode utf8_initial rest"
  by (simp add: utf8_decode_Cons utf8_first_def utf8_initial_def)

lemma utf8_decode_2:
  assumes "2 \<le> q" "q < 32" "r < 64"
  shows "utf8_decode utf8_initial ((192 + q) # (128 + r) # rest)
           = (q * 64 + r) # utf8_decode utf8_initial rest"
  using assms by (simp add: utf8_decode_Cons utf8_first_def utf8_initial_def m192 m128)

lemma utf8_decode_3:
  assumes "q1 < 16" "q2 < 64" "r < 64" "q1 = 0 \<longrightarrow> 32 \<le> q2" "q1 = 13 \<longrightarrow> q2 < 32"
  shows "utf8_decode utf8_initial ((224 + q1) # (128 + q2) # (128 + r) # rest)
           = ((q1 * 64 + q2) * 64 + r) # utf8_decode utf8_initial rest"
  using assms by (auto simp: utf8_decode_Cons utf8_first_def utf8_initial_def m224 m128)

lemma utf8_decode_4:
  assumes "q0 < 5" "q1 < 64" "q2 < 64" "r < 64" "q0 = 0 \<longrightarrow> 16 \<le> q1" "q0 = 4 \<longrightarrow> q1 < 16"
  shows "utf8_decode utf8_initial ((240 + q0) # (128 + q1) # (128 + q2) # (128 + r) # rest)
           = (((q0 * 64 + q1) * 64 + q2) * 64 + r) # utf8_decode utf8_initial rest"
  using assms by (auto simp: utf8_decode_Cons utf8_first_def utf8_initial_def m240 m128)

lemma div4096: "(c::nat) div 4096 = c div 64 div 64" by (simp add: div_mult2_eq)
lemma div262144: "(c::nat) div 262144 = c div 64 div 64 div 64" by (simp add: div_mult2_eq)

lemma utf8_decode_bytes:
  assumes "isScalar c"
  shows "utf8_decode utf8_initial (utf8_bytes c @ rest) = c # utf8_decode utf8_initial rest"
proof -
  define d1 where "d1 = c div 64"
  define d2 where "d2 = d1 div 64"
  define d3 where "d3 = d2 div 64"
  have c: "c = d1 * 64 + c mod 64" by (simp add: d1_def)
  have d1: "d1 = d2 * 64 + d1 mod 64" by (simp add: d2_def)
  have d2: "d2 = d3 * 64 + d2 mod 64" by (simp add: d3_def)
  have r: "c mod 64 < 64" "d1 mod 64 < 64" "d2 mod 64 < 64" by simp_all
  have lt: "c < 1114112" and ns: "\<not> (55296 \<le> c \<and> c \<le> 57343)"
    using assms by (simp_all add: isScalar_def)
  consider "c < 128" | "128 \<le> c" "c < 2048" | "2048 \<le> c" "c < 65536" | "65536 \<le> c"
    by linarith
  then show ?thesis
  proof cases
    case 1
    then show ?thesis by (simp add: utf8_bytes_def utf8_decode_1)
  next
    case 2
    have "2 \<le> d1" "d1 < 32" using 2 c r by linarith+
    from utf8_decode_2 [OF this r(1), of rest] c 2
    show ?thesis by (simp add: utf8_bytes_def d1_def)
  next
    case 3
    have b: "d2 < 16" "d2 = 0 \<longrightarrow> 32 \<le> d1 mod 64" "d2 = 13 \<longrightarrow> d1 mod 64 < 32"
      using 3 ns c d1 r by linarith+
    have "(d2 * 64 + d1 mod 64) * 64 + c mod 64 = c" using c d1 by simp
    with utf8_decode_3 [OF b(1) r(2) r(1) b(2) b(3), of rest] 3
    show ?thesis by (simp add: utf8_bytes_def div4096 d1_def d2_def)
  next
    case 4
    have b: "d3 < 5" "d3 = 0 \<longrightarrow> 16 \<le> d2 mod 64" "d3 = 4 \<longrightarrow> d2 mod 64 < 16"
      using 4 lt c d1 d2 r by linarith+
    have "((d3 * 64 + d2 mod 64) * 64 + d1 mod 64) * 64 + c mod 64 = c" using c d1 d2 by simp
    with utf8_decode_4 [OF b(1) r(3) r(2) r(1) b(2) b(3), of rest] 4
    show ?thesis by (simp add: utf8_bytes_def div4096 div262144 d1_def d2_def d3_def)
  qed
qed

lemma utf8_decode_encode:
  "list_all isScalar cs \<Longrightarrow> utf8_decode utf8_initial (concat (map utf8_bytes cs)) = cs"
  by (induction cs) (simp_all add: utf8_initial_def utf8_decode_bytes [unfolded utf8_initial_def])

lemma utf8_bytes_octets: "isScalar c \<Longrightarrow> list_all (\<lambda>b. b < 256) (utf8_bytes c)"
  unfolding utf8_bytes_def isScalar_def by auto

subsection \<open>UTF-16 and the two codecs together\<close>

lemma wellFormed_units: "wellFormed p \<Longrightarrow> list_all (\<lambda>u. u < 65536) p"
  by (induction p rule: wellFormed.induct) (auto simp: isLead_def isTrail_def split: if_splits)

lemma isScalar_scalarOfUnit: "u < 65536 \<Longrightarrow> isScalar (scalarOfUnit u)"
  by (auto simp: isScalar_def scalarOfUnit_def isLead_def isTrail_def)

lemma isScalar_pair: "isLead u \<Longrightarrow> isTrail v \<Longrightarrow> isScalar (65536 + (u - 55296) * 1024 + (v - 56320))"
  by (auto simp: isScalar_def isLead_def isTrail_def)

lemma utf16_scalars_valid: "list_all (\<lambda>u. u < 65536) p \<Longrightarrow> list_all isScalar (utf16_scalars p)"
  by (induction p rule: utf16_scalars.induct) (auto simp: isScalar_scalarOfUnit isScalar_pair)

lemma unitsOfScalar_pair:
  assumes "isLead u" "isTrail v"
  shows "unitsOfScalar (65536 + (u - 55296) * 1024 + (v - 56320)) = [u, v]"
proof -
  have v: "v - 56320 < 1024" and u: "55296 \<le> u" and v': "56320 \<le> v"
    using assms by (auto simp: isLead_def isTrail_def)
  have "((u - 55296) * 1024 + (v - 56320)) div 1024 = u - 55296"
    using v by simp
  moreover have "((u - 55296) * 1024 + (v - 56320)) mod 1024 = v - 56320"
    using v by simp
  ultimately show ?thesis using u v' by (simp add: unitsOfScalar_def)
qed

lemma units_of_scalars:
  "wellFormed p \<Longrightarrow> concat (map unitsOfScalar (utf16_scalars p)) = p"
proof (induction p rule: utf16_scalars.induct)
  case 1 then show ?case by simp
next
  case (2 u) then show ?case by (simp add: scalarOfUnit_def unitsOfScalar_def)
next
  case (3 u v us)
  show ?case
  proof (cases "isLead u")
    case True
    with 3 show ?thesis by (simp add: unitsOfScalar_pair)
  next
    case False
    with 3 show ?thesis by (simp add: scalarOfUnit_def unitsOfScalar_def)
  qed
qed

lemma stripBOM_scalars:
  "p = [] \<or> hd p \<noteq> 65279 \<Longrightarrow> stripBOM (utf16_scalars p) = utf16_scalars p"
  by (cases p rule: utf16_scalars.cases)
     (auto simp: stripBOM_def scalarOfUnit_def isLead_def isTrail_def)

lemma unat_of_nat_octet: "b < 256 \<Longrightarrow> unat (of_nat b :: 8 word) = b"
  by (simp add: unsigned_of_nat take_bit_nat_eq_self)

lemma unat_of_nat_octets:
  "list_all (\<lambda>b. b < 256) xs \<Longrightarrow> map (unat \<circ> (of_nat :: nat \<Rightarrow> 8 word)) xs = xs"
  by (induction xs) (simp_all add: unat_of_nat_octet)

lemma octets_concat:
  "list_all isScalar cs \<Longrightarrow> list_all (\<lambda>b. b < 256) (concat (map utf8_bytes cs))"
  by (induction cs) (simp_all add: utf8_bytes_octets)

lemma decode_encode_general:
  assumes "list_all (\<lambda>u. u < 65536) p"
  shows "TextDecoder_decode (TextEncoder_encode p)
           = concat (map unitsOfScalar (stripBOM (utf16_scalars p)))"
  using assms
  by (simp add: TextDecoder_decode_def TextEncoder_encode_def unat_of_nat_octets octets_concat
      utf16_scalars_valid utf8_decode_encode)

lemma decode_encode:
  assumes "wellFormed p" "p = [] \<or> hd p \<noteq> 65279"
  shows "arrayBufferToString (stringToArrayBuffer p) = p"
  using assms
  by (simp add: arrayBufferToString_def stringToArrayBuffer_def decode_encode_general
      wellFormed_units stripBOM_scalars units_of_scalars)

subsection \<open>Splitting at the separator\<close>

lemma split_on_join: "split_on sep s = [a, b] \<Longrightarrow> s = a @ sep # b"
proof (induction s arbitrary: a)
  case Nil then show ?case by simp
next
  case (Cons c cs)
  show ?case
  proof (cases "c = sep")
    case True
    with Cons.prems have "a = []" "split_on sep cs = [b]" by simp_all
    moreover have "sep \<notin> set cs"
    proof
      assume "sep \<in> set cs"
      then have "count_list cs sep \<noteq> 0" by (simp add: count_list_0_iff)
      then have "1 < length (split_on sep cs)" by (simp add: length_split_on)
      with \<open>split_on sep cs = [b]\<close> show False by simp
    qed
    ultimately show ?thesis using True by (simp add: split_on_notin)
  next
    case False
    with Cons.prems obtain p where p: "split_on sep cs = [p, b]" "a = c # p"
      by (auto split: list.splits)
    from Cons.IH[OF p(1)] p(2) show ?thesis by simp
  qed
qed

subsection \<open>Evaluation on concrete inputs\<close>

lemmas text_eval = stringToArrayBuffer_def arrayBufferToString_def TextEncoder_encode_def
  TextDecoder_decode_def scalarOfUnit_def isLead_def isTrail_def utf8_bytes_def
  utf8_decode_Cons utf8_first_def utf8_initial_def stripBOM_def unitsOfScalar_def

lemmas hex_eval = bytesToHex_simps hexDigit_def hexToBytes_def parseInt16_def isWhiteSpace_def
  isHexDigit_def hexValue_def hexNumber_def toUint8_def Let_def

lemmas key_eval = deriveKeyFromAddress_def keyMaterial_def toLowerCase_def lowerLatin1_def
  toString10_def pbkdf2Params_def derivedKeyParams_def account1_def hardhat_def js_def

lemmas toy_eval = toy_platform_def toy_tag_def text_eval hex_eval js_def

lemma toy_inverts: "decrypt_inverts_encrypt toy_platform"
  by (auto simp: decrypt_inverts_encrypt_def toy_platform_def)

lemma toy_key:
  "deriveKeyFromAddress toy_platform account1 hardhat =
     Some [48, 48, 48, 48, 48, 48, 48, 48, 48, 48, 48, 48, 48, 48, 48, 48,
           48, 48, 48, 48, 48, 48, 48, 48, 48, 48, 48, 48, 48, 48, 48, 48]"
  by (simp add: key_eval text_eval toy_platform_def)

lemma encrypt_hi:
  "encryptString toy_platform [1, 1, 1, 1, 1, 1, 1, 1, 1, 1, 1, 1] (js ''hi'') account1 hardhat =
     Inr (js ''010101010101010101010101:686901010101010101010101010130303030'')"
  by (simp add: encryptString_def toy_key) (simp add: toy_eval)

lemma decrypt_hi:
  "decryptString toy_platform
     (js ''010101010101010101010101:686901010101010101010101010130303030'') account1 hardhat =
     Inr (js ''hi'')"
  by (simp add: decryptString_def toy_key) (simp add: toy_eval)

lemma encrypt_ok:
  "encryptString toy_platform [2, 2, 2, 2, 2, 2, 2, 2, 2, 2, 2, 2] (js ''ok'') account1 hardhat =
     Inr (js ''020202020202020202020202:6f6b02020202020202020202020230303030'')"
  by (simp add: encryptString_def toy_key) (simp add: toy_eval)

lemma encrypt_multibyte:
  "encryptString toy_platform [0, 0, 0, 0, 0, 0, 0, 0, 0, 0, 0, 0] [233, 8364, 55357, 56832]
     account1 hardhat =
     Inr (js ''000000000000000000000000:c3a9e282acf09f988000000000000000000000000030303030'')"
  by (simp add: encryptString_def toy_key) (simp add: toy_eval)

lemma encrypt_empty:
  "encryptString toy_platform [0, 0, 0, 0, 0, 0, 0, 0, 0, 0, 0, 0] [] account1 hardhat =
     Inr (js ''000000000000000000000000:00000000000000000000000030303030'')"
  by (simp add: encryptString_def toy_key) (simp add: toy_eval)

lemma encrypt_bom:
  "encryptString toy_platform [0, 0, 0, 0, 0, 0, 0, 0, 0, 0, 0, 0] [65279, 104, 105]
     account1 hardhat =
     Inr (js ''000000000000000000000000:efbbbf686900000000000000000000000030303030'')"
  by (simp add: encryptString_def toy_key) (simp add: toy_eval)

lemma decrypt_bom:
  "decryptString toy_platform
     (js ''000000000000000000000000:efbbbf686900000000000000000000000030303030'')
     account1 hardhat = Inr [104, 105]"
  by (simp add: decryptString_def toy_key) (simp add: toy_eval)

lemma decrypt_not_hex:
  "decryptString toy_platform
     (js ''zz0000000000000000000000:686900000000000000000000000030303030'')
     account1 hardhat = Inr (js ''hi'')"
  by (simp add: decryptString_def toy_key) (simp add: toy_eval)

subsection \<open>Key derivation\<close>

text \<open>
  Claim C3. Key derivation runs PBKDF2 with SHA-256 over the lower-cased address without
  \<^verbatim>\<open>0x\<close> followed by the decimal chain id, with a fixed salt, for a 256-bit AES-GCM key,
  with at least 100,000 iterations.

  All of it holds of the code but the iteration count: the call asks for 1000 iterations.
  The platform that answers with the iteration count it was asked for returns 1000.
\<close>

theorem C3_derivation_asks_for_1000_iterations:
  "deriveKeyFromAddress W address chainId =
     deriveKey W pbkdf2Params (stringToArrayBuffer (keyMaterial W address chainId)) derivedKeyParams
   \<and> hash pbkdf2Params = SHA_256
   \<and> salt pbkdf2Params = stringToArrayBuffer (js ''secure-device-maintenance-salt'')
   \<and> cipher derivedKeyParams = AES_GCM \<and> key_length derivedKeyParams = 256
   \<and> keyMaterial W (js ''0xF39Fd6e51aad88F6F4ce6aB8827279cffFb92266'') 31337 =
       js ''f39fd6e51aad88f6f4ce6ab8827279cfffb9226631337''
   \<and> iterations pbkdf2Params = 1000
   \<and> iterations pbkdf2Params < 100000
   \<and> deriveKeyFromAddress probe_platform account1 hardhat = Some 1000"
  by (simp add: deriveKeyFromAddress_def pbkdf2Params_def derivedKeyParams_def probe_platform_def
      keyMaterial_def toLowerCase_def lowerLatin1_def toString10_def js_def)

subsection \<open>The identity of the key\<close>










declare decimalDigits.simps [simp del]






subsection \<open>Round trip of encryption\<close>

text \<open>
  Whatever the string, decrypting what encryption returned gives the string as the decoder
  reads the encoder's octets.
\<close>

lemma decrypt_after_encrypt:
  assumes W: "decrypt_inverts_encrypt W"
    and enc: "encryptString W iv p address chainId = Inr e"
  shows "decryptString W e address chainId = Inr (arrayBufferToString (stringToArrayBuffer p))"
proof -
  from enc obtain key out where
    key: "deriveKeyFromAddress W address chainId = Some key"
    and out: "encrypt W key iv (stringToArrayBuffer p) = Some out"
    and e: "e = bytesToHex iv @ 58 # bytesToHex out"
    by (auto simp: encryptString_def split: option.splits)
  have parts: "split_on 58 (bytesToHex iv @ 58 # bytesToHex out) = [bytesToHex iv, bytesToHex out]"
    by (simp add: split_on_append split_on_notin colon_notin_bytesToHex)
  from W out have dec: "decrypt W key iv out = Some (stringToArrayBuffer p)"
    by (auto simp: decrypt_inverts_encrypt_def)
  show ?thesis
    by (simp add: decryptString_def e parts key dec hexToBytes_bytesToHex Let_def)
qed

text \<open>
  Claim C4, as the code has it. On a platform whose \<^verbatim>\<open>decrypt\<close> inverts its
  \<^verbatim>\<open>encrypt\<close>, for every address, chain id and \<open>iv\<close>, and for every well-formed string
  \<open>p\<close> that does not begin with U+FEFF: decrypting the envelope that \<^verbatim>\<open>encryptString\<close>
  returned for \<open>p\<close> returns \<open>p\<close>. The empty string and strings with characters of two,
  three and four octets are among them.
\<close>

theorem C4_decrypt_inverts_encrypt:
  assumes W: "decrypt_inverts_encrypt W"
    and wf: "wellFormed p"
    and bom: "take 1 p \<noteq> [65279]"
    and enc: "encryptString W iv p address chainId = Inr e"
  shows "decryptString W e address chainId = Inr p"
proof -
  from bom have "p = [] \<or> hd p \<noteq> 65279" by (cases p) auto
  with wf have "arrayBufferToString (stringToArrayBuffer p) = p" by (rule decode_encode)
  with decrypt_after_encrypt [OF W enc] show ?thesis by simp
qed

theorem C4_roundtrip_witness:
  "decrypt_inverts_encrypt toy_platform
   \<and> wellFormed [233, 8364, 55357, 56832]
   \<and> encryptString toy_platform [0, 0, 0, 0, 0, 0, 0, 0, 0, 0, 0, 0] [233, 8364, 55357, 56832]
        account1 hardhat =
       Inr (js ''000000000000000000000000:c3a9e282acf09f988000000000000000000000000030303030'')
   \<and> decryptString toy_platform
        (js ''000000000000000000000000:c3a9e282acf09f988000000000000000000000000030303030'')
        account1 hardhat = Inr [233, 8364, 55357, 56832]
   \<and> encryptString toy_platform [0, 0, 0, 0, 0, 0, 0, 0, 0, 0, 0, 0] [] account1 hardhat =
       Inr (js ''000000000000000000000000:00000000000000000000000030303030'')
   \<and> decryptString toy_platform (js ''000000000000000000000000:00000000000000000000000030303030'')
        account1 hardhat = Inr []"
proof -
  have wf: "wellFormed [233, 8364, 55357, 56832]" "wellFormed []"
    by (simp_all add: isLead_def isTrail_def)
  have nb: "take 1 [233, 8364, 55357, 56832] \<noteq> [65279::nat]" "take 1 [] \<noteq> [65279::nat]"
    by simp_all
  from C4_decrypt_inverts_encrypt [OF toy_inverts wf(1) nb(1) encrypt_multibyte]
    C4_decrypt_inverts_encrypt [OF toy_inverts wf(2) nb(2) encrypt_empty]
    toy_inverts wf encrypt_multibyte encrypt_empty
  show ?thesis by simp
qed

text \<open>
  Claim C4 as stated covers every UTF-8 string. The string of U+FEFF followed by "hi" is
  well formed; its encryption succeeds, and decrypting the envelope returns "hi": the
  decoder, constructed with no options, leaves a leading U+FEFF out. The cipher has no
  part in it (\<open>decrypt_after_encrypt\<close>); the stand-in is there to make the input concrete.
\<close>

theorem C4_leading_bom_is_lost:
  "decrypt_inverts_encrypt toy_platform
   \<and> wellFormed [65279, 104, 105]
   \<and> encryptString toy_platform [0, 0, 0, 0, 0, 0, 0, 0, 0, 0, 0, 0] [65279, 104, 105]
        account1 hardhat =
       Inr (js ''000000000000000000000000:efbbbf686900000000000000000000000030303030'')
   \<and> decryptString toy_platform
        (js ''000000000000000000000000:efbbbf686900000000000000000000000030303030'')
        account1 hardhat = Inr [104, 105]"
  using toy_inverts encrypt_bom decrypt_bom by (simp add: isLead_def isTrail_def)

subsection \<open>Malformed envelopes\<close>

text \<open>
  Claim C6, as the code has it. \<^verbatim>\<open>decryptString\<close> fails with a format error exactly
  when the input does not hold exactly one colon: "missing IV separator" when it holds
  none, "expected iv:encryptedData" when it holds two or more. With exactly one colon the
  two fields are never checked for being hexadecimal: what is before the colon and what
  is after it each go through \<^verbatim>\<open>hexToBytes\<close> as they are and the octets are handed to
  the cipher with the derived key. The result is then the text of what the cipher returns,
  or a decryption failure when the derivation or the cipher rejects.
\<close>

theorem C6_format_errors_by_colon_count:
  "decryptString W e address chainId =
     (if count_list e 58 = 0 then Inl (Decryption_failed Missing_IV_separator)
      else if count_list e 58 \<noteq> 1 then Inl (Decryption_failed Expected_iv_encryptedData)
      else (case deriveKeyFromAddress W address chainId of
              None \<Rightarrow> Inl (Decryption_failed Rejected)
            | Some key \<Rightarrow>
               (case decrypt W key (hexToBytes (takeWhile (\<lambda>u. u \<noteq> 58) e))
                        (hexToBytes (tl (dropWhile (\<lambda>u. u \<noteq> 58) e))) of
                  None \<Rightarrow> Inl (Decryption_failed Rejected)
                | Some decrypted \<Rightarrow> Inr (arrayBufferToString decrypted))))
   \<and> ((decryptString W e address chainId = Inl (Decryption_failed Missing_IV_separator)
        \<or> decryptString W e address chainId = Inl (Decryption_failed Expected_iv_encryptedData))
       = (count_list e 58 \<noteq> 1))"
  (is "?main \<and> ?exactly")
proof -
  have main: ?main
  proof -
  consider "count_list e 58 = 0" | "count_list e 58 = 1" | "1 < count_list e 58" by linarith
  then show ?thesis
  proof cases
    case 1
    then have "58 \<notin> set e" by (simp add: count_list_0_iff)
    with 1 show ?thesis by (simp add: decryptString_def)
  next
    case 2
    then have "58 \<in> set e" using count_list_0_iff[of e 58] by auto
    with 2 show ?thesis
      by (simp add: decryptString_def split_on_two Let_def)
  next
    case 3
    then have "58 \<in> set e" using count_list_0_iff[of e 58] by auto
    with 3 show ?thesis by (simp add: decryptString_def length_split_on Let_def)
  qed
  qed
  have ?exactly
  proof (cases "count_list e 58 = 1")
    case True
    with main show ?thesis by (simp split: option.splits)
  next
    case False
    with main show ?thesis by (cases "count_list e 58 = 0") simp_all
  qed
  with main show ?thesis by blast
qed

text \<open>
  Claim C6 as stated says an input with one colon and a field that is not hexadecimal is
  rejected as malformed. The envelope below has exactly one colon and starts with "zz";
  \<^verbatim>\<open>parseInt("zz", 16)\<close> is \<^verbatim>\<open>NaN\<close>, stored as 0, so the envelope reads like the one
  with "00" there, and decryption succeeds and returns "hi".
\<close>

theorem C6_non_hex_field_is_decrypted:
  "count_list (js ''zz0000000000000000000000:686900000000000000000000000030303030'') 58 = 1
   \<and> \<not> list_all isHexDigit
         (takeWhile (\<lambda>u. u \<noteq> 58)
            (js ''zz0000000000000000000000:686900000000000000000000000030303030''))
   \<and> decryptString toy_platform
        (js ''zz0000000000000000000000:686900000000000000000000000030303030'')
        account1 hardhat = Inr (js ''hi'')"
  using decrypt_not_hex by (simp add: js_def isHexDigit_def hexValue_def)

subsection \<open>The encoding for storage\<close>

lemma lowerHex_digit: "isLowerHex a \<Longrightarrow> \<exists>h<16. a = hexDigit h"
  by (intro exI[of _ "if a \<le> 57 then a - 48 else a - 87"]) (auto simp: isLowerHex_def hexDigit_def)

lemma lowerHex_pair:
  assumes "isLowerHex a" "isLowerHex b"
  shows "bytesToHex [toUint8 (parseInt16 [a, b])] = [a, b]"
proof -
  from assms obtain h l where h: "h < 16" "a = hexDigit h" and l: "l < 16" "b = hexDigit l"
    using lowerHex_digit by blast
  define n where "n = 16 * h + l"
  define w :: "8 word" where "w = of_nat n"
  have "n < 256" using h l by (simp add: n_def)
  then have u: "unat w = n" by (simp add: w_def unat_of_nat_octet)
  have d: "n div 16 = h" "n mod 16 = l" using h l by (simp_all add: n_def)
  have "toUint8 (parseInt16 [hexDigit (unat w div 16), hexDigit (unat w mod 16)]) = w"
    by (rule toUint8_pair)
  then have "toUint8 (parseInt16 [a, b]) = w" by (simp add: u d h l)
  then show ?thesis by (simp add: bytesToHex_simps u d h l)
qed

lemma bytesToHex_hexPairs:
  "list_all isLowerHex s \<Longrightarrow> even (length s) \<Longrightarrow> bytesToHex (hexPairs s) = s"
proof (induction s rule: hexPairs.induct)
  case (1 a b rest)
  have "bytesToHex (hexPairs (a # b # rest)) = bytesToHex [toUint8 (parseInt16 [a, b])] @ bytesToHex (hexPairs rest)"
    by (simp add: bytesToHex_def)
  with 1 show ?case by (simp add: lowerHex_pair)
qed (simp_all add: bytesToHex_simps)

lemma hexPairs_append: "even (length a) \<Longrightarrow> hexPairs (a @ b) = hexPairs a @ hexPairs b"
  by (induction a rule: hexPairs.induct) simp_all

lemma length_hexPairs: "length (hexPairs s) = length s div 2"
  by (induction s rule: hexPairs.induct) simp_all

text \<open>
  Claim C10. For every envelope \<open>e\<close> with exactly one colon, whose two fields are
  lower-case hexadecimal of even length and whose first field is 24 digits (12 octets):
  \<^verbatim>\<open>bytesToEncryptedString(encryptedStringToBytes(e), 12)\<close> is \<open>e\<close>.
\<close>

theorem C10_storage_encoding_inverse:
  assumes parts: "split_on 58 e = [f1, f2]"
    and f1: "list_all isLowerHex f1" and f2: "list_all isLowerHex f2"
    and l1: "length f1 = 24" and l2: "even (length f2)"
  shows "bytesToEncryptedString (encryptedStringToBytes e) 12 = e"
proof -
  have e: "e = f1 @ 58 # f2" using parts by (rule split_on_join)
  have n1: "58 \<notin> set f1" using f1 by (auto simp: list_all_iff isLowerHex_def)
  have rm: "remove1 58 e = f1 @ f2" using n1 by (simp add: e remove1_append)
  have "f1 \<noteq> []" using l1 by auto
  then obtain a b r where f1': "f1 = a # b # r" using l1 by (cases f1; cases "tl f1") auto
  with f1 have "isLowerHex b" by simp
  then have "b \<noteq> 120" by (auto simp: isLowerHex_def)
  then have np: "take 2 (f1 @ f2) \<noteq> js ''0x''" by (simp add: f1' js_def)
  have bytes: "encryptedStringToBytes e = hexPairs f1 @ hexPairs f2"
    using np by (simp add: encryptedStringToBytes_def rm hexToBytes_def hexPairs_append l1)
  have len: "length (hexPairs f1) = 12" by (simp add: length_hexPairs l1)
  have "bytesToEncryptedString (hexPairs f1 @ hexPairs f2) 12 = f1 @ 58 # f2"
    by (simp add: bytesToEncryptedString_def len bytesToHex_hexPairs f1 f2 l1 l2)
  with bytes e show ?thesis by simp
qed

theorem C10_storage_encoding_witness:
  "split_on 58 (js ''000000000000000000000000:c3a9e282acf09f9880'') =
     [js ''000000000000000000000000'', js ''c3a9e282acf09f9880'']
   \<and> bytesToEncryptedString
        (encryptedStringToBytes (js ''000000000000000000000000:c3a9e282acf09f9880'')) 12 =
       js ''000000000000000000000000:c3a9e282acf09f9880''"
proof -
  have s: "split_on 58 (js ''000000000000000000000000:c3a9e282acf09f9880'') =
     [js ''000000000000000000000000'', js ''c3a9e282acf09f9880'']"
    by (simp add: js_def)
  have h: "list_all isLowerHex (js ''000000000000000000000000'')"
    "list_all isLowerHex (js ''c3a9e282acf09f9880'')"
    "length (js ''000000000000000000000000'') = 24"
    "even (length (js ''c3a9e282acf09f9880''))"
    by (simp_all add: js_def isLowerHex_def)
  from C10_storage_encoding_inverse [OF s h] s show ?thesis by simp
qed

section \<open>Properties of the hook\<close>

subsection \<open>The array made of a returned string\<close>

text \<open>
  The digits of \<open>hexlify\<close> read as a number are the octets read as one integer, the first
  octet the most significant. Eight octets or more, the first of them not 0, are a number
  above \<open>2^53 - 1\<close>: no array is made of them, on any platform.
\<close>

lemma length_bytesToHex: "length (bytesToHex xs) = 2 * length xs"
  by (induction xs) (simp_all add: bytesToHex_simps)

lemma hexNumber_bytesToHex:
  "foldl (\<lambda>acc u. 16 * acc + (case hexValue u of Some d \<Rightarrow> d | None \<Rightarrow> 0)) a (bytesToHex bs) =
   foldl (\<lambda>acc b. 256 * acc + unat b) a bs"
proof (induction bs arbitrary: a)
  case Nil
  show ?case by (simp add: bytesToHex_simps)
next
  case (Cons b bs)
  let ?f = "\<lambda>acc u. 16 * acc + (case hexValue u of Some d \<Rightarrow> d | None \<Rightarrow> 0)"
  have d: "unat b div 16 < 16" by (rule unat_byte_div)
  have m: "unat b mod 16 < 16" by simp
  have "16 * (16 * a + unat b div 16) + unat b mod 16 =
          256 * a + (unat b div 16 * 16 + unat b mod 16)" by simp
  then have "16 * (16 * a + unat b div 16) + unat b mod 16 = 256 * a + unat b"
    by (simp only: div_mult_mod_eq)
  then have step: "?f (?f a (hexDigit (unat b div 16))) (hexDigit (unat b mod 16)) = 256 * a + unat b"
    by (simp only: hexValue_hexDigit [OF d] hexValue_hexDigit [OF m] option.case)
  have "foldl ?f a (bytesToHex (b # bs)) = foldl ?f (256 * a + unat b) (bytesToHex bs)"
    by (simp only: bytesToHex_simps foldl.simps step)
  also have "\<dots> = foldl (\<lambda>acc b. 256 * acc + unat b) (256 * a + unat b) bs" by (rule Cons)
  finally show ?case by (simp only: foldl.simps)
qed

lemma octets_value_lower:
  "a * 256 ^ length bs \<le> foldl (\<lambda>acc b. 256 * acc + unat b) a (bs :: bytes)"
proof (induction bs arbitrary: a)
  case Nil
  show ?case by simp
next
  case (Cons b bs)
  have "a * 256 ^ length (b # bs) = (256 * a) * 256 ^ length bs" by simp
  also have "\<dots> \<le> (256 * a + unat b) * 256 ^ length bs" by (rule mult_le_mono1) simp
  also have "\<dots> \<le> foldl (\<lambda>acc b. 256 * acc + unat b) (256 * a + unat b) bs" by (rule Cons)
  finally show ?case by simp
qed

lemma bytesToHex_hexDigits: "list_all isHexDigit (bytesToHex bs)"
proof (induction bs)
  case Nil
  show ?case by (simp add: bytesToHex_simps)
next
  case (Cons b bs)
  have "unat b mod 16 < 16" by simp
  from isHexDigit_hexDigit [OF this] isHexDigit_hexDigit [OF unat_byte_div [of b]] Cons
  show ?case by (simp add: bytesToHex_simps)
qed

lemma newUint8Array_RangeError:
  assumes len: "8 \<le> length bs" and first: "hd bs \<noteq> 0"
  shows "newUint8Array W (hexlify bs) = None"
proof -
  from len obtain b bs' where bs: "bs = b # bs'" and l: "7 \<le> length bs'" by (cases bs) auto
  from first bs have "unat b \<noteq> 0" by (simp add: unsigned_eq_0_iff)
  then have b: "1 \<le> unat b" by simp
  have n: "hexNumber (bytesToHex bs) = foldl (\<lambda>acc b. 256 * acc + unat b) (unat b) bs'"
    by (simp add: hexNumber_def hexNumber_bytesToHex bs)
  have "(256::nat) ^ 7 \<le> 256 ^ length bs'" using l by (intro power_increasing) simp_all
  also have "\<dots> \<le> unat b * 256 ^ length bs'" using b by simp
  also have "\<dots> \<le> hexNumber (bytesToHex bs)" unfolding n by (rule octets_value_lower)
  finally have big: "72057594037927936 \<le> hexNumber (bytesToHex bs)" by simp
  have ne: "bytesToHex bs \<noteq> []" by (simp add: bs bytesToHex_simps)
  from big ne show ?thesis
    by (simp add: newUint8Array_def hexlify_def bytesToHex_hexDigits Let_def)
qed

text \<open>An envelope is ASCII, so its UTF-8 text is its code units, and begins with a digit.\<close>

lemma utf16_scalars_ascii: "list_all (\<lambda>u. u < 128) s \<Longrightarrow> utf16_scalars s = s"
  by (induction s rule: utf16_scalars.induct)
     (simp_all add: isLead_def isTrail_def scalarOfUnit_def)

lemma utf8_bytes_ascii: "list_all (\<lambda>u. u < 128) s \<Longrightarrow> concat (map utf8_bytes s) = s"
  by (induction s) (simp_all add: utf8_bytes_def)

lemma toUtf8Bytes_ascii: "list_all (\<lambda>u. u < 128) s \<Longrightarrow> toUtf8Bytes s = map of_nat s"
  by (simp add: toUtf8Bytes_def TextEncoder_encode_def utf16_scalars_ascii utf8_bytes_ascii)

lemma hexDigit_ascii: "d < 16 \<Longrightarrow> 0 < hexDigit d \<and> hexDigit d < 128"
  by (simp add: hexDigit_def)

lemma bytesToHex_ascii: "list_all (\<lambda>u. u < 128) (bytesToHex bs)"
proof (induction bs)
  case Nil
  show ?case by (simp add: bytesToHex_simps)
next
  case (Cons b bs)
  have "unat b mod 16 < 16" by simp
  from hexDigit_ascii [OF this] hexDigit_ascii [OF unat_byte_div [of b]] Cons
  show ?case by (simp add: bytesToHex_simps)
qed

lemma stored_envelope_RangeError:
  assumes enc: "encryptString W iv p address chainId = Inr e" and iv: "length iv = 12"
  shows "newUint8Array W' (hexlify (toUtf8Bytes e)) = None"
proof -
  from enc obtain out where e: "e = bytesToHex iv @ 58 # bytesToHex out"
    by (auto simp: encryptString_def split: option.splits)
  have "list_all (\<lambda>u. u < 128) e" by (simp add: e bytesToHex_ascii)
  then have t: "toUtf8Bytes e = map of_nat e" by (rule toUtf8Bytes_ascii)
  have "length e = 25 + 2 * length out" by (simp add: e length_bytesToHex iv)
  then have len: "8 \<le> length (toUtf8Bytes e)" unfolding t by simp
  from iv obtain b iv' where b: "iv = b # iv'" by (cases iv) auto
  define h where "h = hexDigit (unat b div 16)"
  from hexDigit_ascii [OF unat_byte_div [of b]] have h: "0 < h" "h < 256" by (simp_all add: h_def)
  have "hd (map of_nat e) = (of_nat h :: 8 word)" by (simp add: e b bytesToHex_simps h_def)
  then have "hd (toUtf8Bytes e) = (of_nat h :: 8 word)" unfolding t .
  moreover have "unat (of_nat h :: 8 word) = h" using h by (simp add: unat_of_nat_octet)
  ultimately have "unat (hd (toUtf8Bytes e)) \<noteq> 0" using h by simp
  then have "hd (toUtf8Bytes e) \<noteq> 0" by auto
  with len show ?thesis by (rule newUint8Array_RangeError)
qed

text \<open>
  A short string is a small number, and the array is as many zeros: the one octet 5 comes
  back as five octets 0.
\<close>

lemma newUint8Array_of_short_string:
  "hexlify [5] = js ''0x05''"
  "newUint8Array toy_platform (js ''0x05'') = Some [0, 0, 0, 0, 0]"
  "bytesToEncryptedString [0, 0, 0, 0, 0] 12 = js ''0000000000:''"
proof -
  have r: "replicate 5 0 = [0, 0, 0, 0, 0 :: 8 word]" by (simp add: numeral_eq_Suc)
  show "hexlify [5] = js ''0x05''" by (simp add: hexlify_def hex_eval)
  show "newUint8Array toy_platform (js ''0x05'') = Some [0, 0, 0, 0, 0]"
    by (simp add: newUint8Array_def hexNumber_def isHexDigit_def hexValue_def toy_platform_def r)
  show "bytesToEncryptedString [0, 0, 0, 0, 0] 12 = js ''0000000000:''"
    by (simp add: bytesToEncryptedString_def hex_eval)
qed

text \<open>
  Had the array held the stored octets, the string made of them would still not be the
  envelope: \<^verbatim>\<open>bytesToEncryptedString\<close> writes two digits for each octet, and the octets
  stored are the characters of the envelope.
\<close>

lemma read_back_length:
  "length (bytesToEncryptedString bs n) = 2 * length bs + 1"
proof -
  have "length (take n bs) + length (drop n bs) = length bs" by simp
  then show ?thesis
    unfolding bytesToEncryptedString_def Let_def
    by (simp add: length_bytesToHex del: length_take length_drop)
qed

lemma utf8_bytes_length: "1 \<le> length (utf8_bytes c)" "65536 \<le> c \<Longrightarrow> length (utf8_bytes c) = 4"
  by (simp_all add: utf8_bytes_def)

lemma length_scalars_bytes: "length s \<le> length (concat (map utf8_bytes (utf16_scalars s)))"
proof (induction s rule: utf16_scalars.induct)
  case 1 show ?case by simp
next
  case (2 u)
  from utf8_bytes_length(1)[of "scalarOfUnit u"] show ?case by simp
next
  case (3 u v us)
  show ?case
  proof (cases "isLead u \<and> isTrail v")
    case True
    have "length (utf8_bytes (65536 + (u - 55296) * 1024 + (v - 56320))) = 4"
      by (rule utf8_bytes_length(2)) simp
    with True 3 show ?thesis by simp
  next
    case False
    with 3 utf8_bytes_length(1)[of "scalarOfUnit u"] show ?thesis by auto
  qed
qed

lemma length_toUtf8Bytes: "length s \<le> length (toUtf8Bytes s)"
  using length_scalars_bytes[of s] by (simp add: toUtf8Bytes_def TextEncoder_encode_def)

lemma hook_read_back_differs: "bytesToEncryptedString (toUtf8Bytes e) n \<noteq> e"
proof
  assume "bytesToEncryptedString (toUtf8Bytes e) n = e"
  then have "length (bytesToEncryptedString (toUtf8Bytes e) n) = length e" by simp
  with length_toUtf8Bytes[of e] show False by (simp add: read_back_length)
qed

subsection \<open>Writing, then reading\<close>

text \<open>
  So for every platform, account and pair of plaintexts, the \<open>iv\<close> being of twelve octets
  as \<^verbatim>\<open>encryptString\<close> draws it: when the hook's update or registration goes through,
  the contract holds and returns the octets of the two envelopes, and the hook's
  \<^verbatim>\<open>getEncryptedRecords\<close> and \<^verbatim>\<open>decryptDeviceRecords\<close> return \<^verbatim>\<open>null\<close>.
\<close>

lemma updateMaintenance_InrD:
  assumes "updateMaintenance s sender ts deviceId st lm nc notes calib = Inr (s', evs)"
  shows "onlyAuthorized s' sender" "exists (devices s' deviceId)"
    "encryptedNotes (devices s' deviceId) = notes"
    "encryptedCalibration (devices s' deviceId) = calib"
  using assms by (auto simp: updateMaintenance_def onlyAuthorized_def split: if_splits)

lemma registerDevice_InrD:
  assumes "registerDevice s sender deviceId nm dt st lm nc notes calib = Inr (s', evs)"
  shows "onlyAuthorized s' sender" "exists (devices s' deviceId)"
    "encryptedNotes (devices s' deviceId) = notes"
    "encryptedCalibration (devices s' deviceId) = calib"
  using assms by (auto simp: registerDevice_def onlyAuthorized_def split: if_splits)

lemma hook_updateMaintenance_InrD:
  assumes "hook_updateMaintenance W s sender ts address chainId now iv1 iv2 deviceId st notes calibration
             = Inr (s', evs)"
  shows "\<exists>e1 e2 status' lm nc. address \<noteq> [] \<and> chainId \<noteq> 0
           \<and> encryptString W iv1 notes address chainId = Inr e1
           \<and> encryptString W iv2 calibration address chainId = Inr e2
           \<and> updateMaintenance s sender ts deviceId status' lm nc (toUtf8Bytes e1) (toUtf8Bytes e2)
               = Inr (s', evs)"
proof -
  from assms have a: "address \<noteq> []" and c: "chainId \<noteq> 0"
    by (simp_all add: hook_updateMaintenance_def split: if_splits)
  from assms a c obtain e1 where e1: "encryptString W iv1 notes address chainId = Inr e1"
    by (cases "encryptString W iv1 notes address chainId")
       (simp_all add: hook_updateMaintenance_def split: if_splits)
  from assms a c e1 obtain e2 where e2: "encryptString W iv2 calibration address chainId = Inr e2"
    by (cases "encryptString W iv2 calibration address chainId")
       (simp_all add: hook_updateMaintenance_def split: if_splits)
  from assms a c e1 e2 obtain status' where st: "statusOfNumber st = Some status'"
    by (cases "statusOfNumber st")
       (simp_all add: hook_updateMaintenance_def Let_def split: if_splits)
  from assms a c e1 e2 st
  have "updateMaintenance s sender ts deviceId status' (of_nat (now div 1000))
          (of_nat (now div 1000 + 30 * 24 * 60 * 60)) (toUtf8Bytes e1) (toUtf8Bytes e2) = Inr (s', evs)"
    by (simp add: hook_updateMaintenance_def Let_def split: if_splits sum.splits)
  with a c e1 e2 show ?thesis by blast
qed

lemma hook_registerDevice_InrD:
  assumes "hook_registerDevice W s sender address chainId now iv1 iv2 deviceId nm dt st notes calibration
             = Inr (s', evs)"
  shows "\<exists>e1 e2 status' lm nc. address \<noteq> [] \<and> chainId \<noteq> 0
           \<and> encryptString W iv1 notes address chainId = Inr e1
           \<and> encryptString W iv2 calibration address chainId = Inr e2
           \<and> registerDevice s sender deviceId nm dt status' lm nc (toUtf8Bytes e1) (toUtf8Bytes e2)
               = Inr (s', evs)"
proof -
  from assms have a: "address \<noteq> []" and c: "chainId \<noteq> 0"
    by (simp_all add: hook_registerDevice_def split: if_splits)
  from assms a c obtain e1 where e1: "encryptString W iv1 notes address chainId = Inr e1"
    by (cases "encryptString W iv1 notes address chainId")
       (simp_all add: hook_registerDevice_def split: if_splits)
  from assms a c e1 obtain e2 where e2: "encryptString W iv2 calibration address chainId = Inr e2"
    by (cases "encryptString W iv2 calibration address chainId")
       (simp_all add: hook_registerDevice_def split: if_splits)
  from assms a c e1 e2 obtain status' where st: "statusOfNumber st = Some status'"
    by (cases "statusOfNumber st")
       (simp_all add: hook_registerDevice_def Let_def split: if_splits)
  from assms a c e1 e2 st
  have "registerDevice s sender deviceId nm dt status' (of_nat (now div 1000))
          (of_nat (now div 1000 + 30 * 24 * 60 * 60)) (toUtf8Bytes e1) (toUtf8Bytes e2) = Inr (s', evs)"
    by (simp add: hook_registerDevice_def Let_def split: if_splits sum.splits)
  with a c e1 e2 show ?thesis by blast
qed

lemma read_back_of_stored:
  assumes "onlyAuthorized s' sender" "exists (devices s' deviceId)"
    "encryptedNotes (devices s' deviceId) = toUtf8Bytes e1"
    "encryptedCalibration (devices s' deviceId) = toUtf8Bytes e2"
    "address \<noteq> []" "chainId \<noteq> 0"
    "newUint8Array W (hexlify (toUtf8Bytes e1)) = None"
  shows "getEncryptedRecords s' sender deviceId = Inr (toUtf8Bytes e1, toUtf8Bytes e2)
         \<and> hook_getEncryptedRecords W s' sender address deviceId = Inr None
         \<and> hook_decryptDeviceRecords W s' sender address chainId deviceId = Inr None"
  using assms
  by (simp add: getEncryptedRecords_def hook_getEncryptedRecords_def
      hook_decryptDeviceRecords_def Let_def)

lemma hook_update_then_read_back:
  assumes u: "hook_updateMaintenance W s sender ts address chainId now iv1 iv2 deviceId st notes
                calibration = Inr (s', evs)"
    and iv: "length iv1 = 12"
  shows "\<exists>e1 e2. encryptString W iv1 notes address chainId = Inr e1
           \<and> encryptString W iv2 calibration address chainId = Inr e2
           \<and> getEncryptedRecords s' sender deviceId = Inr (toUtf8Bytes e1, toUtf8Bytes e2)
           \<and> hook_getEncryptedRecords W s' sender address deviceId = Inr None
           \<and> hook_decryptDeviceRecords W s' sender address chainId deviceId = Inr None"
proof -
  from hook_updateMaintenance_InrD [OF u] obtain e1 e2 status' lm nc where
    a: "address \<noteq> []" "chainId \<noteq> 0"
    and e: "encryptString W iv1 notes address chainId = Inr e1"
       "encryptString W iv2 calibration address chainId = Inr e2"
    and c: "updateMaintenance s sender ts deviceId status' lm nc (toUtf8Bytes e1) (toUtf8Bytes e2)
               = Inr (s', evs)"
    by blast
  from read_back_of_stored [OF updateMaintenance_InrD [OF c] a
         stored_envelope_RangeError [OF e(1) iv]] e
  show ?thesis by blast
qed

lemma hook_register_then_read_back:
  assumes u: "hook_registerDevice W s sender address chainId now iv1 iv2 deviceId nm dt st notes
                calibration = Inr (s', evs)"
    and iv: "length iv1 = 12"
  shows "\<exists>e1 e2. encryptString W iv1 notes address chainId = Inr e1
           \<and> encryptString W iv2 calibration address chainId = Inr e2
           \<and> getEncryptedRecords s' sender deviceId = Inr (toUtf8Bytes e1, toUtf8Bytes e2)
           \<and> hook_getEncryptedRecords W s' sender address deviceId = Inr None
           \<and> hook_decryptDeviceRecords W s' sender address chainId deviceId = Inr None"
proof -
  from hook_registerDevice_InrD [OF u] obtain e1 e2 status' lm nc where
    a: "address \<noteq> []" "chainId \<noteq> 0"
    and e: "encryptString W iv1 notes address chainId = Inr e1"
       "encryptString W iv2 calibration address chainId = Inr e2"
    and c: "registerDevice s sender deviceId nm dt status' lm nc (toUtf8Bytes e1) (toUtf8Bytes e2)
               = Inr (s', evs)"
    by blast
  from read_back_of_stored [OF registerDevice_InrD [OF c] a
         stored_envelope_RangeError [OF e(1) iv]] e
  show ?thesis by blast
qed

lemma connected: "account1 \<noteq> []" "hardhat \<noteq> 0"
  by (simp_all add: account1_def hardhat_def js_def)

lemma stored_nonempty:
  "toUtf8Bytes (js ''010101010101010101010101:686901010101010101010101010130303030'') \<noteq> []"
  "toUtf8Bytes (js ''020202020202020202020202:6f6b02020202020202020202020230303030'') \<noteq> []"
  by (simp_all add: toUtf8Bytes_def text_eval js_def)

lemma stored_hexlify:
  "hexlify (toUtf8Bytes (js ''010101010101010101010101:686901010101010101010101010130303030'')) =
   js ''0x3031303130313031303130313031303130313031303130313a363836393031303130313031303130313031303130313031303130313330333033303330''"
  by (simp add: hexlify_def toUtf8Bytes_def text_eval hex_eval js_def)

lemma stored_RangeError:
  "newUint8Array toy_platform
     (hexlify (toUtf8Bytes (js ''010101010101010101010101:686901010101010101010101010130303030'')))
   = None"
  by (rule stored_envelope_RangeError [OF encrypt_hi]) simp

lemma stored_number:
  "2 ^ 53 - 1 <
     hexNumber (js ''3031303130313031303130313031303130313031303130313a363836393031303130313031303130313031303130313031303130313330333033303330'')"
  by (simp add: hexNumber_def hexValue_def js_def)

text \<open>
  Claim C2. After an authorized caller's update stores the envelopes of its plaintexts, the
  same caller's \<^verbatim>\<open>getEncryptedRecords\<close> returns those envelopes, and decrypting them
  returns the plaintexts.

  The code does not keep this. Account 1, owner of the example deployment, updates
  "dev-001" with the notes "hi" and the calibration "ok". The contract stores and returns
  the octets the hook sent, the UTF-8 text of the two envelopes. The hook gets them as a
  string of hexadecimal digits and makes its array of the string, which takes it as a
  length; the length is out of range, so \<^verbatim>\<open>getEncryptedRecords\<close> of the hook returns
  \<^verbatim>\<open>null\<close> and not the envelopes, and \<^verbatim>\<open>decryptDeviceRecords\<close> returns \<^verbatim>\<open>null\<close> and
  not the plaintexts. The input is one of all: \<open>hook_update_then_read_back\<close> and
  \<open>hook_register_then_read_back\<close> say the same of every update and registration that goes
  through, on every platform.
\<close>

theorem C2_hook_reads_back_null:
 "encryptString toy_platform [1, 1, 1, 1, 1, 1, 1, 1, 1, 1, 1, 1] (js ''hi'') account1 hardhat =
    Inr (js ''010101010101010101010101:686901010101010101010101010130303030'')
  \<and> encryptString toy_platform [2, 2, 2, 2, 2, 2, 2, 2, 2, 2, 2, 2] (js ''ok'') account1 hardhat =
    Inr (js ''020202020202020202020202:6f6b02020202020202020202020230303030'')
  \<and> decryptString toy_platform
      (js ''010101010101010101010101:686901010101010101010101010130303030'') account1 hardhat =
    Inr (js ''hi'')
  \<and> hexlify (toUtf8Bytes (js ''010101010101010101010101:686901010101010101010101010130303030'')) =
    js ''0x3031303130313031303130313031303130313031303130313a363836393031303130313031303130313031303130313031303130313330333033303330''
  \<and> 2 ^ 53 - 1 <
      hexNumber (js ''3031303130313031303130313031303130313031303130313a363836393031303130313031303130313031303130313031303130313330333033303330'')
  \<and> (case hook_updateMaintenance toy_platform example_ledger 1 500 account1 hardhat 1700000000000
        [1, 1, 1, 1, 1, 1, 1, 1, 1, 1, 1, 1] [2, 2, 2, 2, 2, 2, 2, 2, 2, 2, 2, 2]
        ''dev-001'' 1 (js ''hi'') (js ''ok'') of
      Inl e \<Rightarrow> False
    | Inr (s', evs) \<Rightarrow>
        getEncryptedRecords s' 1 ''dev-001'' =
          Inr (toUtf8Bytes (js ''010101010101010101010101:686901010101010101010101010130303030''),
               toUtf8Bytes (js ''020202020202020202020202:6f6b02020202020202020202020230303030''))
        \<and> hook_getEncryptedRecords toy_platform s' 1 account1 ''dev-001'' = Inr None
        \<and> hook_decryptDeviceRecords toy_platform s' 1 account1 hardhat ''dev-001'' = Inr None)"
proof (intro conjI)
  show "case hook_updateMaintenance toy_platform example_ledger 1 500 account1 hardhat 1700000000000
        [1, 1, 1, 1, 1, 1, 1, 1, 1, 1, 1, 1] [2, 2, 2, 2, 2, 2, 2, 2, 2, 2, 2, 2]
        ''dev-001'' 1 (js ''hi'') (js ''ok'') of
      Inl e \<Rightarrow> False
    | Inr (s', evs) \<Rightarrow>
        getEncryptedRecords s' 1 ''dev-001'' =
          Inr (toUtf8Bytes (js ''010101010101010101010101:686901010101010101010101010130303030''),
               toUtf8Bytes (js ''020202020202020202020202:6f6b02020202020202020202020230303030''))
        \<and> hook_getEncryptedRecords toy_platform s' 1 account1 ''dev-001'' = Inr None
        \<and> hook_decryptDeviceRecords toy_platform s' 1 account1 hardhat ''dev-001'' = Inr None"
    by (simp add: encrypt_hi encrypt_ok hook_updateMaintenance_def
        connected statusOfNumber_def updateMaintenance_def onlyAuthorized_def example_ledger_auth
        example_ledger_device stored_nonempty getEncryptedRecords_def hook_getEncryptedRecords_def
        hook_decryptDeviceRecords_def stored_RangeError del: js_simps)
qed (fact encrypt_hi encrypt_ok decrypt_hi stored_hexlify stored_number)+

end
